theory Spec2Isabelle
  imports Complex_Main "HOL-Library.AList" "HOL-Library.Sublist"
begin

section \<open>JavaScript values and strings\<close>

text \<open>
  The tool-invocation client (\<open>backend/services/mcp/tools\<close>) works on untyped
  argument records, on strings and on numbers. Values of type \<open>unknown\<close> are
  modelled by \<open>jsval\<close>. An object the module receives is given by the properties a
  \<open>for ... in\<close> loop visits on it, in that order (its enumerable properties, own and
  inherited, each name once); an object the module builds is given by its own
  properties, which is what is serialised to the server.

  A number is a finite value, given exactly as a rational, or one of \<open>NaN\<close>,
  \<open>Infinity\<close>, \<open>-Infinity\<close>. How the engine renders a number in a template literal
  and how it multiplies are not modelled: they are parameters of the environment
  (\<open>number_toString\<close>, \<open>multiply\<close> below). The status codes are literal constants of the
  source and are kept as integers.
\<close>

datatype jsnumber = Finite rat | NaN | PosInfinity | NegInfinity

datatype jsval =
    JUndefined
  | JNull
  | JBool bool
  | JNum jsnumber
  | JStr string
  | JArr "jsval list"
  | JObj "(string \<times> jsval) list"

type_synonym jsobject = "(string \<times> jsval) list"

text \<open>\<open>String.prototype.includes\<close> (here \<open>includes_str\<close>), \<open>startsWith\<close> and \<open>endsWith\<close> (position omitted).\<close>

fun includes_str :: "string \<Rightarrow> string \<Rightarrow> bool" where
  "includes_str [] p = (p = [])"
| "includes_str (c # s) p = (take (length p) (c # s) = p \<or> includes_str s p)"

definition startsWith :: "string \<Rightarrow> string \<Rightarrow> bool" where
  "startsWith s p = (take (length p) s = p)"

definition endsWith :: "string \<Rightarrow> string \<Rightarrow> bool" where
  "endsWith s p = (length p \<le> length s \<and> drop (length s - length p) s = p)"

text \<open>
  The decimal digits of a natural number: the property name under which an array holds
  its element of that index.
\<close>

fun digits :: "nat \<Rightarrow> string" where
  "digits n = (if n < 10 then [''0123456789'' ! n]
               else digits (n div 10) @ [''0123456789'' ! (n mod 10)])"

section \<open>Logging and observable effects\<close>

text \<open>
  Every run yields, besides its result, the list of effects it performed, in program
  order: log lines (level and message; objects attached to a log call are left out),
  and the calls made to the collaborators.
\<close>

text \<open>The logger's levels (\<open>LError\<close> is \<open>log.error\<close>).\<close>

datatype level = Verbose | Debug | Info | Warn | LError

text \<open>The call envelope \<open>{name, arguments, _meta: {progressToken}}\<close>.\<close>

record toolCallParams =
  params_name :: string
  params_arguments :: jsobject
  params_meta_progressToken :: string

text \<open>
  The notification object handed to \<open>JSON.stringify\<close> and then to the transport; the
  JSON text is represented by the object it serialises.
\<close>

record cancellationNotification =
  jsonrpc :: string
  notification_method :: string
  params_requestId :: string
  params_reason :: string

text \<open>
  The events: a log line, and \<open>log.error(JSON.stringify(obj))\<close> with the object it
  prints; the call of \<open>resolveGlobalVars\<close>; \<open>uuidv4()\<close> with the token it returned;
  \<open>client.callTool(toolCallParams)\<close>; \<open>setTimeout\<close> with its delay in milliseconds
  and \<open>clearTimeout\<close>; the timer's callback \<open>controller.abort()\<close>; a call of
  \<open>cancelToolExecution\<close> with its \<open>requestId\<close> and \<open>reason\<close>; \<open>transport.send\<close>;
  \<open>client.listTools()\<close>.
\<close>

datatype event =
    Log level string
  | LogJson level jsobject
  | ResolveGlobalVars jsval
  | GenerateToken string
  | RemoteCall toolCallParams
  | SetTimeout jsnumber
  | ClearTimeout
  | Abort
  | CancelRequest string string
  | TransportSend cancellationNotification
  | ListTools

section \<open>Argument Normalizer\<close>

text \<open>
  \<open>normalizeToolArguments\<close>: \<open>None\<close> stands for a falsy \<open>args\<close>
  (\<open>null\<close>/\<open>undefined\<close>). \<open>normalize_entry\<close> is the body of the loop for one
  property: the value assigned to \<open>normalizedArgs[key]\<close> and the lines logged. The loop
  visits the properties in order.

  \<open>assign_property\<close> is the assignment \<open>obj[key] = v\<close> on an object that began as the
  literal \<open>{}\<close>: it sets or adds the own property \<open>key\<close>, except for the key
  \<open>__proto__\<close>, where it runs the prototype's setter and no own property appears (an
  object value becomes the prototype, any other value is ignored).
\<close>

definition assign_property :: "string \<Rightarrow> jsval \<Rightarrow> jsobject \<Rightarrow> jsobject" where
  "assign_property key v obj =
     (if key = ''__proto__'' then obj else AList.update key v obj)"

definition normalize_entry :: "string \<Rightarrow> string \<Rightarrow> jsval \<Rightarrow> jsval \<times> event list" where
  "normalize_entry toolName key value =
     (if value = JUndefined \<or> value = JNull then
        (let log0 = [Log Debug (''Normalizing undefined/null value for parameter '' @ [CHR 0x27]
                                @ key @ [CHR 0x27] @ '' in tool '' @ [CHR 0x27] @ toolName @ [CHR 0x27])]
         in
         if includes_str key ''number'' \<or> endsWith key ''Count'' \<or> endsWith key ''Id''
            \<or> endsWith key ''Limit'' then
           (JNum (Finite 0),
            log0 @ [Log Debug (''Using default value 0 for likely number parameter: '' @ key)])
         else if includes_str key ''bool'' \<or> startsWith key ''is'' \<or> startsWith key ''has''
            \<or> startsWith key ''should'' then
           (JBool False,
            log0 @ [Log Debug (''Using default value false for likely boolean parameter: '' @ key)])
         else if includes_str key ''array'' \<or> endsWith key ''s'' \<or> endsWith key ''List''
            \<or> endsWith key ''Items'' then
           (JArr [],
            log0 @ [Log Debug (''Using empty array for likely array parameter: '' @ key)])
         else if includes_str key ''object'' \<or> endsWith key ''Options'' \<or> endsWith key ''Config''
            \<or> endsWith key ''Settings'' then
           (JObj [],
            log0 @ [Log Debug (''Using empty object for likely object parameter: '' @ key)])
         else
           (JStr [],
            log0 @ [Log Debug (''Using empty string for parameter with unknown type: '' @ key)]))
      else (value, []))"

fun normalize_loop ::
  "string \<Rightarrow> jsobject \<Rightarrow> jsobject \<times> event list \<Rightarrow> jsobject \<times> event list" where
  "normalize_loop toolName [] acc = acc"
| "normalize_loop toolName ((key, value) # rest) (normalizedArgs, logs) =
     normalize_loop toolName rest
       (assign_property key (fst (normalize_entry toolName key value)) normalizedArgs,
        logs @ snd (normalize_entry toolName key value))"

definition normalizeToolArguments :: "jsobject option \<Rightarrow> string \<Rightarrow> jsobject \<times> event list" where
  "normalizeToolArguments args toolName =
     (case args of
        None \<Rightarrow> ([], [])
      | Some props \<Rightarrow> normalize_loop toolName props ([], []))"

section \<open>Collaborators\<close>

text \<open>
  What a \<open>catch\<close> can receive: an \<open>Error\<close>, the SDK's \<open>McpError\<close> (a subclass of
  \<open>Error\<close> with a numeric \<open>code\<close>), or any other thrown value.
\<close>

datatype thrown = Error string | McpError jsnumber string | NonError jsval

text \<open>The idiom \<open>error instanceof Error ? error.message : 'Unknown error'\<close>.\<close>

fun message_or_unknown :: "thrown \<Rightarrow> string" where
  "message_or_unknown (Error m) = m"
| "message_or_unknown (McpError c m) = m"
| "message_or_unknown (NonError v) = ''Unknown error''"

fun instanceof_Error :: "thrown \<Rightarrow> bool" where
  "instanceof_Error (NonError v) = False"
| "instanceof_Error e = True"

text \<open>
  What an awaited promise does: it resolves with a value, rejects with a thrown value,
  or never settles. This holds for each operation the module awaits: the remote tool
  call, argument resolution, the tool-list query and the transport's \<open>send\<close>.
\<close>

datatype 'a settle = Resolves 'a | Rejects thrown | NeverSettles

record sdk_tool =
  sdk_name :: string
  sdk_description :: "string option"
  sdk_inputSchema :: "jsobject option"

text \<open>
  The connected handle (the SDK's \<open>Client\<close>), as far as this module uses it:
  \<open>client.callTool\<close>, \<open>client.listTools\<close> (the \<open>tools\<close> field of its response, which
  may be missing) and \<open>client.transport\<close>. A transport without a \<open>send\<close> member has
  \<open>send = None\<close>.
\<close>

record transport =
  send :: "(cancellationNotification \<Rightarrow> unit settle) option"

record client =
  client_callTool :: "toolCallParams \<Rightarrow> jsval settle"
  client_listTools :: "sdk_tool list option settle"
  client_transport :: "transport option"

text \<open>
  The rest of the environment of one invocation: \<open>resolveGlobalVars\<close> (imported from
  \<open>backend/utils/resolveGlobalVars\<close>), the identifier \<open>uuidv4()\<close> returns, the
  scheduler's decision in \<open>Promise.race\<close> (whether the timer fires before a remote call
  that does settle), and the engine's number operations: \<open>number_toString n\<close> is the
  text of \<open>n\<close> in a template literal, \<open>multiply\<close> is \<open>*\<close>.
\<close>

record env =
  resolveGlobalVars :: "jsval \<Rightarrow> jsval settle"
  uuidv4 :: string
  timer_first :: bool
  number_toString :: "jsnumber \<Rightarrow> string"
  multiply :: "jsnumber \<Rightarrow> jsnumber \<Rightarrow> jsnumber"

text \<open>How an \<open>async\<close> function ends, seen by its caller.\<close>

datatype 'a completion = Returned 'a | Threw thrown | Pending

section \<open>Cancellation Notifier\<close>

text \<open>
  \<open>cancelToolExecution\<close> awaits the transport's \<open>send\<close>: it returns when the send
  resolved, rethrows (after logging) what the send or the missing transport threw, and
  stays pending while the send does.
\<close>

definition cancelToolExecution ::
  "client \<Rightarrow> string \<Rightarrow> string \<Rightarrow> unit completion \<times> event list" where
  "cancelToolExecution client requestId reason =
     (let entry = [CancelRequest requestId reason,
                   Log Debug (''Cancelling request '' @ requestId @ '': '' @ reason)];
          cancellationNotification =
            \<lparr>jsonrpc = ''2.0'', notification_method = ''notifications/cancelled'',
             params_requestId = requestId, params_reason = reason\<rparr>;
          tried =
            (case client_transport client of
               None \<Rightarrow> (Threw (Error ''Client has no transport''), [])
             | Some tp \<Rightarrow>
                 (case send tp of
                    Some snd_fn \<Rightarrow>
                      (case snd_fn cancellationNotification of
                         Resolves u \<Rightarrow>
                           (Returned (),
                            [TransportSend cancellationNotification,
                             Log Info (''Sent cancellation notification for request '' @ requestId)])
                       | Rejects e \<Rightarrow> (Threw e, [TransportSend cancellationNotification])
                       | NeverSettles \<Rightarrow> (Pending, [TransportSend cancellationNotification]))
                  | None \<Rightarrow>
                      (Threw (Error ''Transport does not support sending messages''), [])))
      in case tried of
           (Threw e, tr) \<Rightarrow>
             (Threw e,
              entry @ tr @ [Log LError (''Failed to cancel tool execution: '' @ message_or_unknown e)])
         | (r, tr) \<Rightarrow> (r, entry @ tr))"

section \<open>Tool Catalog Reader\<close>




section \<open>Call Dispatcher\<close>

text \<open>The response contract \<open>MCPServiceResponse\<close>; an omitted field is \<open>None\<close>.\<close>

record MCPServiceResponse =
  success :: bool
  data :: "jsval option"
  error :: "string option"
  statusCode :: "int option"
  errorType :: "string option"
  toolName :: "string option"
  timeout :: "jsnumber option"
  progressToken :: "string option"
  requiresAuthentication :: "bool option"

text \<open>
  The properties \<open>for ... in\<close> visits on a value that passed
  \<open>typeof v === 'object' && v !== null\<close>: an array is an object whose keys are its
  indices; everything else becomes \<open>{}\<close>.
\<close>

fun argsRecord_of :: "jsval \<Rightarrow> jsobject" where
  "argsRecord_of (JObj props) = props"
| "argsRecord_of (JArr vs) = zip (map digits [0..<length vs]) vs"
| "argsRecord_of v = []"

text \<open>
  The handler of the outer \<open>try\<close> of \<open>callTool\<close> (the error classifier): the
  authentication check returns at once; the 404 text check and the protocol-code
  mapping assign to \<open>statusCode\<close> and \<open>errorMessage\<close> one after the other.
\<close>

definition callTool_catch ::
  "env \<Rightarrow> string \<Rightarrow> string \<Rightarrow> thrown \<Rightarrow> MCPServiceResponse \<times> event list" where
  "callTool_catch env serverName tool_name err =
     (let log0 = [Log Warn (''Failed to call tool '' @ tool_name @ '' on server '' @ serverName @ '':'')];
          errorMessage = message_or_unknown err;
          statusCode0 = (500 :: int)
      in
      if includes_str errorMessage ''401'' \<or> includes_str errorMessage ''Unauthorized''
         \<or> includes_str errorMessage ''invalid_token'' \<or> includes_str errorMessage ''token_expired''
      then
        (\<lparr>success = False, data = None,
          error = Some ''OAuth authentication failed or tokens have expired. Please re-authenticate the server.'',
          statusCode = Some 401, errorType = None, toolName = None, timeout = None,
          progressToken = None, requiresAuthentication = Some True\<rparr>,
         log0 @ [Log Info (''OAuth authentication error detected for tool '' @ tool_name
                           @ '' on server '' @ serverName)])
      else
        (let (statusCode1, errorMessage1, log1) =
               (if includes_str errorMessage ''404'' \<or> includes_str errorMessage ''Not Found''
                then (404,
                      ''Tool endpoint not found (404). This may indicate OAuth authentication issues or the server may not be properly configured.'',
                      log0 @ [Log Info (''404 error detected for tool '' @ tool_name @ '' on server ''
                                        @ serverName @ '' - may indicate OAuth issues'')])
                else (statusCode0, errorMessage, log0));
             (statusCode2, errorMessage2) =
               (case err of
                  McpError code m \<Rightarrow>
                    (if code = Finite (- 32601) then 404
                     else if code = Finite (- 32602) then 400
                     else if code = Finite (- 32603) then 500
                     else statusCode1,
                     ''Failed to call tool: '' @ errorMessage1 @ '' (Code: ''
                     @ number_toString env code @ '')'')
                | _ \<Rightarrow> (statusCode1, ''Failed to call tool: '' @ errorMessage1))
         in
         (\<lparr>success = False, data = None, error = Some errorMessage2,
           statusCode = Some statusCode2, errorType = None, toolName = None, timeout = None,
           progressToken = None, requiresAuthentication = None\<rparr>,
          log1)))"

text \<open>
  \<open>Promise.race\<close> of the remote call against the promise that rejects when the
  \<open>AbortController\<close> fires. The timer wins when the remote call never settles, or when
  the scheduler lets it fire first; its callback runs \<open>controller.abort()\<close>.
\<close>

definition promise_race :: "bool \<Rightarrow> 'a settle \<Rightarrow> string \<Rightarrow> (thrown + 'a) \<times> event list" where
  "promise_race timer_fires_first remote abort_message =
     (case remote of
        NeverSettles \<Rightarrow> (Inl (Error abort_message), [Abort])
      | Resolves v \<Rightarrow>
          if timer_fires_first then (Inl (Error abort_message), [Abort]) else (Inr v, [])
      | Rejects e \<Rightarrow>
          if timer_fires_first then (Inl (Error abort_message), [Abort]) else (Inl e, []))"

text \<open>
  The \<open>catch\<close> of the inner \<open>try\<close> (the branch with a timer). On its timeout path it
  awaits \<open>cancelToolExecution\<close> before it builds and returns the timeout failure, so it
  stays pending while the cancellation does.
\<close>

definition callTool_timeout_catch ::
  "env \<Rightarrow> client \<Rightarrow> string \<Rightarrow> jsnumber \<Rightarrow> string \<Rightarrow> thrown
     \<Rightarrow> MCPServiceResponse completion \<times> event list" where
  "callTool_timeout_catch env client tool_name timeout_s token err =
     (if instanceof_Error err \<and> includes_str (message_or_unknown err) ''timed out'' then
        (let (cancelled, cancel_events) =
               cancelToolExecution client token
                 (''Execution timed out after '' @ number_toString env timeout_s @ '' seconds'');
             timeoutError =
               \<lparr>success = False, data = None,
                error = Some (''Tool execution timed out after '' @ number_toString env timeout_s
                              @ '' seconds''),
                statusCode = Some 408, errorType = Some ''timeout'', toolName = Some tool_name,
                timeout = Some timeout_s, progressToken = Some token,
                requiresAuthentication = None\<rparr>;
             before_cancel =
               [ClearTimeout,
                Log Warn (''Tool '' @ tool_name @ '' execution timed out after ''
                          @ number_toString env timeout_s @ '' seconds'')];
             report =
               [LogJson LError
                  [(''type'', JStr ''error''), (''source'', JStr ''timeout''),
                   (''message'', JStr (''Tool '' @ tool_name @ '' execution timed out after ''
                                       @ number_toString env timeout_s @ '' seconds'')),
                   (''toolName'', JStr tool_name), (''timeout'', JNum timeout_s),
                   (''progressToken'', JStr token)]]
         in
         case cancelled of
           Returned u \<Rightarrow>
             (Returned timeoutError,
              before_cancel @ cancel_events
              @ [Log Info (''Sent cancellation notification for timed out tool '' @ tool_name)]
              @ report)
         | Threw cancelError \<Rightarrow>
             (Returned timeoutError,
              before_cancel @ cancel_events
              @ [Log Warn (''Failed to send cancellation notification: ''
                           @ message_or_unknown cancelError)]
              @ report)
         | Pending \<Rightarrow> (Pending, before_cancel @ cancel_events))
      else (Threw err, [ClearTimeout]))"

text \<open>
  The body of the outer \<open>try\<close>: what it returns or throws, or that it stays pending at
  one of its \<open>await\<close>s.
\<close>

definition callTool_try ::
  "client \<Rightarrow> string \<Rightarrow> jsobject \<Rightarrow> jsnumber option \<Rightarrow> env
     \<Rightarrow> MCPServiceResponse completion \<times> event list" where
  "callTool_try client tool_name args timeout_s env =
     (let log0 = [Log Debug (''Original args for tool '' @ tool_name @ '':''),
                  ResolveGlobalVars (JObj args)]
      in
      case resolveGlobalVars env (JObj args) of
        Rejects err \<Rightarrow> (Threw err, log0)
      | NeverSettles \<Rightarrow> (Pending, log0)
      | Resolves resolvedArgs \<Rightarrow>
          (let argsRecord = argsRecord_of resolvedArgs;
               (normalizedArgs, normalize_log) = normalizeToolArguments (Some argsRecord) tool_name;
               token = uuidv4 env;
               toolCallParams =
                 \<lparr>params_name = tool_name, params_arguments = normalizedArgs,
                  params_meta_progressToken = token\<rparr>;
               log1 = log0 @ normalize_log
                      @ [Log Debug (''Normalized args for tool '' @ tool_name @ '':''),
                         GenerateToken token,
                         Log Debug (''Generated progress token: '' @ token @ '' for tool '' @ tool_name)];
               succeeded = (\<lambda>response.
                 \<lparr>success = True, data = Some response, error = None, statusCode = None,
                  errorType = None, toolName = None, timeout = None,
                  progressToken = Some token, requiresAuthentication = None\<rparr>)
           in
           case timeout_s of
             Some t \<Rightarrow>
               (let log2 = log1 @ [Log Debug (''Using timeout: '' @ number_toString env t
                                              @ '' seconds for tool '' @ tool_name)]
                in
                if t = Finite (- 1) then
                  (let log3 = log2 @ [Log Debug (''No timeout set for tool '' @ tool_name),
                                      RemoteCall toolCallParams]
                   in
                   case client_callTool client toolCallParams of
                     Resolves response \<Rightarrow> (Returned (succeeded response), log3)
                   | Rejects err \<Rightarrow> (Threw err, log3)
                   | NeverSettles \<Rightarrow> (Pending, log3))
                else
                  (let timeoutMs = multiply env t (Finite 1000);
                       log3 = log2 @ [Log Debug (''Setting timeout of ''
                                                 @ number_toString env timeoutMs
                                                 @ ''ms for tool '' @ tool_name),
                                      SetTimeout timeoutMs,
                                      RemoteCall toolCallParams];
                       (raced, race_events) =
                         promise_race (timer_first env) (client_callTool client toolCallParams)
                           (''Tool execution timed out after '' @ number_toString env t
                            @ '' seconds'')
                   in
                   case raced of
                     Inr response \<Rightarrow>
                       (Returned (succeeded response), log3 @ race_events @ [ClearTimeout])
                   | Inl err \<Rightarrow>
                       (let (r, catch_events) =
                              callTool_timeout_catch env client tool_name t token err
                        in (r, log3 @ race_events @ catch_events))))
           | None \<Rightarrow>
               (let log3 = log1 @ [Log Debug (''No timeout specified for tool '' @ tool_name
                                              @ '', using default (no timeout)''),
                                   RemoteCall toolCallParams]
                in
                case client_callTool client toolCallParams of
                  Resolves response \<Rightarrow> (Returned (succeeded response), log3)
                | Rejects err \<Rightarrow> (Threw err, log3)
                | NeverSettles \<Rightarrow> (Pending, log3))))"

text \<open>\<open>callTool\<close>: the guard on the handle, then the \<open>try\<close> with its handler.\<close>

definition callTool ::
  "client option \<Rightarrow> string \<Rightarrow> string \<Rightarrow> jsobject \<Rightarrow> jsnumber option \<Rightarrow> env
     \<Rightarrow> MCPServiceResponse completion \<times> event list" where
  "callTool client serverName tool_name args timeout_s env =
     (case client of
        None \<Rightarrow>
          (Returned
             \<lparr>success = False, data = None,
              error = Some (''Server '' @ serverName @ '' not found''),
              statusCode = Some 404, errorType = None, toolName = None, timeout = None,
              progressToken = None, requiresAuthentication = None\<rparr>,
           [Log Debug ''Entering callTool method'',
            Log Warn (''Server '' @ serverName @ '' not found'')])
      | Some c \<Rightarrow>
          (case callTool_try c tool_name args timeout_s env of
             (Threw err, events) \<Rightarrow>
               (let (r, catch_events) = callTool_catch env serverName tool_name err
                in (Returned r, Log Debug ''Entering callTool method'' # events @ catch_events))
           | (r, events) \<Rightarrow> (r, Log Debug ''Entering callTool method'' # events)))"

section \<open>Notions used in the statements\<close>

subsection \<open>The specification's default for a parameter name\<close>

text \<open>
  The default the specification gives for a parameter name (section 4.1, rules (a) to (e),
  first match wins), written with the list library's \<open>sublist\<close>, \<open>prefix\<close> and
  \<open>suffix\<close>.
\<close>

definition default_by_name_convention :: "string \<Rightarrow> jsval" where
  "default_by_name_convention key =
     (if sublist ''number'' key \<or> suffix ''Count'' key \<or> suffix ''Id'' key \<or> suffix ''Limit'' key
        then JNum (Finite 0)
      else if sublist ''bool'' key \<or> prefix ''is'' key \<or> prefix ''has'' key \<or> prefix ''should'' key
        then JBool False
      else if sublist ''array'' key \<or> suffix ''s'' key \<or> suffix ''List'' key \<or> suffix ''Items'' key
        then JArr []
      else if sublist ''object'' key \<or> suffix ''Options'' key \<or> suffix ''Config'' key
              \<or> suffix ''Settings'' key
        then JObj []
      else JStr [])"

definition normalized_value :: "string \<Rightarrow> jsval \<Rightarrow> jsval" where
  "normalized_value key v =
     (if v = JUndefined \<or> v = JNull then default_by_name_convention key else v)"

subsection \<open>Reading a run\<close>

text \<open>The effects of a run other than its log lines, and some kinds of event.\<close>

fun is_log :: "event \<Rightarrow> bool" where
  "is_log (Log l m) = True"
| "is_log (LogJson l obj) = True"
| "is_log e = False"

definition effects :: "event list \<Rightarrow> event list" where
  "effects events = filter (\<lambda>e. \<not> is_log e) events"

fun is_cancel_request :: "event \<Rightarrow> bool" where
  "is_cancel_request (CancelRequest requestId reason) = True"
| "is_cancel_request e = False"

fun is_generate_token :: "event \<Rightarrow> bool" where
  "is_generate_token (GenerateToken token) = True"
| "is_generate_token e = False"

fun is_transport_send :: "event \<Rightarrow> bool" where
  "is_transport_send (TransportSend n) = True"
| "is_transport_send e = False"

fun timer_or_cancel :: "event \<Rightarrow> bool" where
  "timer_or_cancel (SetTimeout ms) = True"
| "timer_or_cancel ClearTimeout = True"
| "timer_or_cancel Abort = True"
| "timer_or_cancel (CancelRequest requestId reason) = True"
| "timer_or_cancel (TransportSend n) = True"
| "timer_or_cancel e = False"

text \<open>An event that mentions a tracking token mentions the given one.\<close>

fun carries_token :: "string \<Rightarrow> event \<Rightarrow> bool" where
  "carries_token token (GenerateToken t) = (t = token)"
| "carries_token token (RemoteCall p) = (params_meta_progressToken p = token)"
| "carries_token token (CancelRequest requestId reason) = (requestId = token)"
| "carries_token token (TransportSend n) = (params_requestId n = token)"
| "carries_token token e = True"

subsection \<open>Names for what \<open>callTool\<close> builds\<close>

text \<open>A positive number of seconds.\<close>

fun is_positive :: "jsnumber \<Rightarrow> bool" where
  "is_positive (Finite q) = (0 < q)"
| "is_positive PosInfinity = True"
| "is_positive n = False"

text \<open>
  The envelope \<open>callTool\<close> sends once the arguments resolved to \<open>resolvedArgs\<close>, its
  two results that carry the token, the message of the error the abort listener rejects
  with, the reason given to \<open>cancelToolExecution\<close>, the notification
  \<open>cancelToolExecution\<close> builds, what it hands to the transport (nothing when the
  client has no transport or the transport no \<open>send\<close>), and whether that send stays
  pending.
\<close>

definition sent_params :: "string \<Rightarrow> jsval \<Rightarrow> string \<Rightarrow> toolCallParams" where
  "sent_params tool_name resolvedArgs token =
     \<lparr>params_name = tool_name,
      params_arguments = fst (normalizeToolArguments (Some (argsRecord_of resolvedArgs)) tool_name),
      params_meta_progressToken = token\<rparr>"

definition success_response :: "jsval \<Rightarrow> string \<Rightarrow> MCPServiceResponse" where
  "success_response response token =
     \<lparr>success = True, data = Some response, error = None, statusCode = None,
      errorType = None, toolName = None, timeout = None,
      progressToken = Some token, requiresAuthentication = None\<rparr>"

definition timeout_response ::
  "env \<Rightarrow> string \<Rightarrow> jsnumber \<Rightarrow> string \<Rightarrow> MCPServiceResponse" where
  "timeout_response env tool_name d token =
     \<lparr>success = False, data = None,
      error = Some (''Tool execution timed out after '' @ number_toString env d @ '' seconds''),
      statusCode = Some 408, errorType = Some ''timeout'', toolName = Some tool_name,
      timeout = Some d, progressToken = Some token, requiresAuthentication = None\<rparr>"

definition timeout_message :: "env \<Rightarrow> jsnumber \<Rightarrow> string" where
  "timeout_message env d =
     ''Tool execution timed out after '' @ number_toString env d @ '' seconds''"

definition cancel_reason :: "env \<Rightarrow> jsnumber \<Rightarrow> string" where
  "cancel_reason env d = ''Execution timed out after '' @ number_toString env d @ '' seconds''"

definition cancellation :: "string \<Rightarrow> string \<Rightarrow> cancellationNotification" where
  "cancellation requestId reason =
     \<lparr>jsonrpc = ''2.0'', notification_method = ''notifications/cancelled'',
      params_requestId = requestId, params_reason = reason\<rparr>"

definition send_effects :: "client \<Rightarrow> string \<Rightarrow> string \<Rightarrow> event list" where
  "send_effects c requestId reason =
     (case client_transport c of
        None \<Rightarrow> []
      | Some tp \<Rightarrow>
          (case send tp of
             None \<Rightarrow> []
           | Some f \<Rightarrow> [TransportSend (cancellation requestId reason)]))"

definition send_never_settles :: "client \<Rightarrow> string \<Rightarrow> string \<Rightarrow> bool" where
  "send_never_settles c requestId reason =
     (case client_transport c of
        None \<Rightarrow> False
      | Some tp \<Rightarrow>
          (case send tp of
             None \<Rightarrow> False
           | Some f \<Rightarrow> f (cancellation requestId reason) = NeverSettles))"

text \<open>
  How the timeout path ends: with the timeout failure once the awaited cancellation has
  settled, and not at all while the transport's send stays pending.
\<close>

definition timeout_outcome ::
  "env \<Rightarrow> client \<Rightarrow> string \<Rightarrow> jsnumber \<Rightarrow> string \<Rightarrow> MCPServiceResponse completion" where
  "timeout_outcome env c tool_name d token =
     (if send_never_settles c token (cancel_reason env d) then Pending
      else Returned (timeout_response env tool_name d token))"

subsection \<open>The classifier's tests\<close>

text \<open>
  The two text tests of the classifier, written with \<open>sublist\<close>, and the result of
  its authentication branch.
\<close>

definition auth_marker :: "string \<Rightarrow> bool" where
  "auth_marker m = (sublist ''401'' m \<or> sublist ''Unauthorized'' m
                    \<or> sublist ''invalid_token'' m \<or> sublist ''token_expired'' m)"

definition not_found_text :: "string \<Rightarrow> bool" where
  "not_found_text m = (sublist ''404'' m \<or> sublist ''Not Found'' m)"

definition auth_failure :: MCPServiceResponse where
  "auth_failure =
     \<lparr>success = False, data = None,
      error = Some ''OAuth authentication failed or tokens have expired. Please re-authenticate the server.'',
      statusCode = Some 401, errorType = None, toolName = None, timeout = None,
      progressToken = None, requiresAuthentication = Some True\<rparr>"

text \<open>
  A rejection of the remote call is handled by the error classifier (the outer
  \<open>catch\<close>) when no timer was set, or when the remote call settled before the timer and
  its message does not contain \<open>timed out\<close>.
\<close>

definition reaches_classifier :: "jsnumber option \<Rightarrow> env \<Rightarrow> thrown \<Rightarrow> bool" where
  "reaches_classifier timeout_s env e =
     (timeout_s = None \<or> timeout_s = Some (Finite (- 1))
      \<or> (\<not> timer_first env \<and> \<not> sublist ''timed out'' (message_or_unknown e)))"

subsection \<open>Example collaborators\<close>

text \<open>
  An engine for the examples: it prints a whole number in decimal and multiplies finite
  numbers exactly, which is what JavaScript does on the small whole numbers the examples
  use (on other numbers the example engine is not JavaScript's).
\<close>

fun example_toString :: "jsnumber \<Rightarrow> string" where
  "example_toString (Finite q) =
     (if q = of_int \<lfloor>q\<rfloor>
      then (if q < 0 then CHR ''-'' # digits (nat (- \<lfloor>q\<rfloor>)) else digits (nat \<lfloor>q\<rfloor>))
      else [])"
| "example_toString NaN = ''NaN''"
| "example_toString PosInfinity = ''Infinity''"
| "example_toString NegInfinity = ''-Infinity''"

fun example_multiply :: "jsnumber \<Rightarrow> jsnumber \<Rightarrow> jsnumber" where
  "example_multiply (Finite a) (Finite b) = Finite (a * b)"
| "example_multiply a b = NaN"

text \<open>
  An environment whose argument resolution changes nothing, and clients whose remote
  call and whose transport's send have fixed outcomes; \<open>example_client\<close> has a
  transport that fails every send.
\<close>

definition example_env :: env where
  "example_env =
     \<lparr>resolveGlobalVars = Resolves, uuidv4 = ''3f2c9a1e-5b7d-4c8a-9e10-6d2b4f8a1c35'',
      timer_first = False, number_toString = example_toString, multiply = example_multiply\<rparr>"

definition example_client_sending :: "unit settle \<Rightarrow> jsval settle \<Rightarrow> client" where
  "example_client_sending sent outcome =
     \<lparr>client_callTool = (\<lambda>p. outcome), client_listTools = Resolves None,
      client_transport = Some \<lparr>send = Some (\<lambda>n. sent)\<rparr>\<rparr>"

definition example_client :: "jsval settle \<Rightarrow> client" where
  "example_client outcome = example_client_sending (Rejects (Error ''socket closed'')) outcome"

section \<open>Strings: the code's tests are the library's\<close>

lemma includes_str_iff: "includes_str s p \<longleftrightarrow> (\<exists>a b. s = a @ p @ b)"
proof (induction s)
  case Nil
  show ?case by auto
next
  case (Cons c s)
  show ?case
  proof
    assume "includes_str (c # s) p"
    then consider "take (length p) (c # s) = p" | "includes_str s p" by auto
    then show "\<exists>a b. c # s = a @ p @ b"
    proof cases
      case 1
      then have "c # s = [] @ p @ drop (length p) (c # s)"
        by (metis append_Nil append_take_drop_id)
      then show ?thesis by blast
    next
      case 2
      then obtain a b where "s = a @ p @ b" using Cons.IH by blast
      then have "c # s = (c # a) @ p @ b" by simp
      then show ?thesis by blast
    qed
  next
    assume "\<exists>a b. c # s = a @ p @ b"
    then obtain a b where ab: "c # s = a @ p @ b" by blast
    show "includes_str (c # s) p"
    proof (cases a)
      case Nil
      with ab have "take (length p) (c # s) = p" by simp
      then show ?thesis by simp
    next
      case (Cons x a')
      with ab have "s = a' @ p @ b" by simp
      then have "includes_str s p" using Cons.IH by blast
      then show ?thesis by simp
    qed
  qed
qed

lemma includes_str_sublist: "includes_str s p = sublist p s"
  by (simp add: includes_str_iff sublist_def)

lemma startsWith_prefix: "startsWith s p = prefix p s"
  unfolding startsWith_def prefix_def
  by (metis append_eq_conv_conj append_take_drop_id)

lemma endsWith_suffix: "endsWith s p = suffix p s"
proof
  assume "endsWith s p"
  then have "s = take (length s - length p) s @ p"
    unfolding endsWith_def by (metis append_take_drop_id)
  then show "suffix p s" unfolding suffix_def by blast
next
  assume "suffix p s"
  then obtain zs where "s = zs @ p" unfolding suffix_def by blast
  then show "endsWith s p" unfolding endsWith_def by simp
qed

lemma includes_str_middle: "includes_str (a @ p @ b) p"
  unfolding includes_str_iff by blast

section \<open>The normalizer's loop\<close>

lemma update_fresh_key: "key \<notin> fst ` set al \<Longrightarrow> AList.update key v al = al @ [(key, v)]"
  by (induction al) auto

lemma normalize_entry_value: "fst (normalize_entry t key v) = normalized_value key v"
  by (simp add: normalize_entry_def normalized_value_def default_by_name_convention_def
        includes_str_sublist startsWith_prefix endsWith_suffix Let_def)

lemma normalize_entry_logs: "effects (snd (normalize_entry t key v)) = []"
  by (simp add: normalize_entry_def effects_def Let_def)

lemma effects_append: "effects (xs @ ys) = effects xs @ effects ys"
  by (simp add: effects_def)

text \<open>
  What the loop builds from distinct keys: the properties in order, each with its
  normalized value, without the property named \<open>__proto__\<close>.
\<close>

lemma normalize_loop_fst:
  "distinct (map fst (fst accp) @ map fst props) \<Longrightarrow>
   fst (normalize_loop t props accp) =
   fst accp @ map (\<lambda>(key, v). (key, normalized_value key v))
                  (filter (\<lambda>p. fst p \<noteq> ''__proto__'') props)"
proof (induction props arbitrary: accp)
  case Nil
  show ?case by simp
next
  case (Cons p props)
  obtain key v where p: "p = (key, v)" by (cases p)
  obtain acc logs where accp: "accp = (acc, logs)" by (cases accp)
  show ?case
  proof (cases "key = ''__proto__''")
    case True
    from Cons.prems have d: "distinct (map fst acc @ map fst props)"
      by (auto simp: p accp)
    have "fst (normalize_loop t props (acc, logs @ snd (normalize_entry t key v))) =
          acc @ map (\<lambda>(key, v). (key, normalized_value key v))
                    (filter (\<lambda>p. fst p \<noteq> ''__proto__'') props)"
      using Cons.IH [of "(acc, logs @ snd (normalize_entry t key v))"] d by simp
    then show ?thesis
      unfolding p accp using True by (simp add: assign_property_def)
  next
    case False
    from Cons.prems have fresh: "key \<notin> fst ` set acc"
      and d: "distinct (map fst (acc @ [(key, normalized_value key v)]) @ map fst props)"
      by (auto simp: p accp)
    have upd: "AList.update key (normalized_value key v) acc = acc @ [(key, normalized_value key v)]"
      using fresh by (rule update_fresh_key)
    have "fst (normalize_loop t props
                 (acc @ [(key, normalized_value key v)], logs @ snd (normalize_entry t key v))) =
          (acc @ [(key, normalized_value key v)])
          @ map (\<lambda>(key, v). (key, normalized_value key v))
                (filter (\<lambda>p. fst p \<noteq> ''__proto__'') props)"
      using Cons.IH [of "(acc @ [(key, normalized_value key v)], logs @ snd (normalize_entry t key v))"] d
      by simp
    then show ?thesis
      unfolding p accp using False by (simp add: normalize_entry_value upd assign_property_def)
  qed
qed

text \<open>
  For an argument record with distinct keys \<open>normalizeToolArguments\<close> keeps the
  properties in order, replaces a \<open>null\<close> or \<open>undefined\<close> value by the default the
  specification gives for the key name and passes every other value through, except
  that it drops the property named \<open>__proto__\<close>.
\<close>

lemma normalizeToolArguments_defaults:
  assumes "distinct (map fst args)"
  shows "fst (normalizeToolArguments (Some args) tool_name) =
           map (\<lambda>(key, v). (key, if v = JUndefined \<or> v = JNull
                                  then default_by_name_convention key else v))
               (filter (\<lambda>p. fst p \<noteq> ''__proto__'') args)"
  using assms
  by (simp add: normalizeToolArguments_def normalize_loop_fst normalized_value_def)

lemma normalize_loop_effects:
  "effects (snd (normalize_loop t props accp)) = effects (snd accp)"
proof (induction props arbitrary: accp)
  case Nil
  show ?case by simp
next
  case (Cons p props)
  obtain key v where p: "p = (key, v)" by (cases p)
  obtain acc logs where accp: "accp = (acc, logs)" by (cases accp)
  show ?case
    unfolding p accp
    by (simp add: Cons.IH effects_append normalize_entry_logs)
qed

section \<open>The dispatcher, branch by branch\<close>

lemma effects_Nil: "effects [] = []"
  by (simp add: effects_def)

lemma effects_Cons: "effects (e # es) = (if is_log e then effects es else e # effects es)"
  by (simp add: effects_def)

lemma effects_normalizeToolArguments: "effects (snd (normalizeToolArguments a t)) = []"
  by (cases a) (simp_all add: normalizeToolArguments_def normalize_loop_effects effects_Nil)

lemma timed_out_message:
  "includes_str (''Tool execution timed out after '' @ s @ '' seconds'') ''timed out''"
proof -
  have "''Tool execution timed out after '' @ s @ '' seconds''
        = ''Tool execution '' @ ''timed out'' @ ('' after '' @ s @ '' seconds'')"
    by simp
  then show ?thesis by (simp only: includes_str_middle)
qed

lemma callTool_try_resolve_fails:
  assumes "resolveGlobalVars env (JObj args) = Rejects e"
  shows "callTool_try c tool_name args timeout_s env =
           (Threw e, [Log Debug (''Original args for tool '' @ tool_name @ '':''),
                      ResolveGlobalVars (JObj args)])"
  using assms by (simp add: callTool_try_def)

lemma callTool_try_resolve_hangs:
  assumes "resolveGlobalVars env (JObj args) = NeverSettles"
  shows "callTool_try c tool_name args timeout_s env =
           (Pending, [Log Debug (''Original args for tool '' @ tool_name @ '':''),
                      ResolveGlobalVars (JObj args)])"
  using assms by (simp add: callTool_try_def)

lemma callTool_try_untimed:
  assumes "resolveGlobalVars env (JObj args) = Resolves ra"
    and "timeout_s = None \<or> timeout_s = Some (Finite (- 1))"
  shows "fst (callTool_try c tool_name args timeout_s env) =
           (case client_callTool c (sent_params tool_name ra (uuidv4 env)) of
              Resolves v \<Rightarrow> Returned (success_response v (uuidv4 env))
            | Rejects e \<Rightarrow> Threw e
            | NeverSettles \<Rightarrow> Pending)"
    and "effects (snd (callTool_try c tool_name args timeout_s env)) =
           [ResolveGlobalVars (JObj args), GenerateToken (uuidv4 env),
            RemoteCall (sent_params tool_name ra (uuidv4 env))]"
  using assms
  by (auto simp add: callTool_try_def Let_def case_prod_beta sent_params_def success_response_def
        effects_append effects_Cons effects_Nil effects_normalizeToolArguments
      split: settle.splits)

lemma cancelToolExecution_effects:
  "effects (snd (cancelToolExecution c requestId reason)) =
     CancelRequest requestId reason # send_effects c requestId reason"
  by (simp add: cancelToolExecution_def send_effects_def cancellation_def Let_def effects_append
        effects_Cons effects_Nil split: option.splits settle.splits)

lemma cancelToolExecution_pending:
  "fst (cancelToolExecution c requestId reason) = Pending \<longleftrightarrow>
     send_never_settles c requestId reason"
  by (simp add: cancelToolExecution_def send_never_settles_def cancellation_def Let_def
      split: option.splits settle.splits)

lemma callTool_timeout_catch_timed_out:
  assumes "instanceof_Error e" and "includes_str (message_or_unknown e) ''timed out''"
  shows "fst (callTool_timeout_catch env c tool_name d token e) =
           timeout_outcome env c tool_name d token"
    and "effects (snd (callTool_timeout_catch env c tool_name d token e)) =
           ClearTimeout # CancelRequest token (cancel_reason env d)
           # send_effects c token (cancel_reason env d)"
proof -
  have pending: "fst (cancelToolExecution c token (cancel_reason env d)) = Pending \<longleftrightarrow>
                 send_never_settles c token (cancel_reason env d)"
    by (rule cancelToolExecution_pending)
  have eff: "effects (snd (cancelToolExecution c token (cancel_reason env d))) =
             CancelRequest token (cancel_reason env d) # send_effects c token (cancel_reason env d)"
    by (rule cancelToolExecution_effects)
  show "fst (callTool_timeout_catch env c tool_name d token e) =
          timeout_outcome env c tool_name d token"
    using assms pending
    by (cases "fst (cancelToolExecution c token (cancel_reason env d))")
       (simp_all add: callTool_timeout_catch_def Let_def case_prod_beta timeout_outcome_def
          timeout_response_def cancel_reason_def)
  show "effects (snd (callTool_timeout_catch env c tool_name d token e)) =
          ClearTimeout # CancelRequest token (cancel_reason env d)
          # send_effects c token (cancel_reason env d)"
    using assms eff
    by (cases "fst (cancelToolExecution c token (cancel_reason env d))")
       (simp_all add: callTool_timeout_catch_def Let_def case_prod_beta cancel_reason_def
          effects_append effects_Cons effects_Nil)
qed

lemma callTool_timeout_catch_other:
  assumes "\<not> (instanceof_Error e \<and> includes_str (message_or_unknown e) ''timed out'')"
  shows "callTool_timeout_catch env c tool_name d token e = (Threw e, [ClearTimeout])"
  unfolding callTool_timeout_catch_def by (rule if_not_P [OF assms])

lemma callTool_try_timed:
  assumes "resolveGlobalVars env (JObj args) = Resolves ra"
    and "d \<noteq> Finite (- 1)"
  shows "callTool_try c tool_name args (Some d) env =
           (let pre = [Log Debug (''Original args for tool '' @ tool_name @ '':''),
                       ResolveGlobalVars (JObj args)]
                      @ snd (normalizeToolArguments (Some (argsRecord_of ra)) tool_name)
                      @ [Log Debug (''Normalized args for tool '' @ tool_name @ '':''),
                         GenerateToken (uuidv4 env),
                         Log Debug (''Generated progress token: '' @ uuidv4 env @ '' for tool '' @ tool_name),
                         Log Debug (''Using timeout: '' @ number_toString env d @ '' seconds for tool '' @ tool_name),
                         Log Debug (''Setting timeout of '' @ number_toString env (multiply env d (Finite 1000))
                                    @ ''ms for tool '' @ tool_name),
                         SetTimeout (multiply env d (Finite 1000)),
                         RemoteCall (sent_params tool_name ra (uuidv4 env))];
                raced = promise_race (timer_first env)
                          (client_callTool c (sent_params tool_name ra (uuidv4 env)))
                          (timeout_message env d)
            in case fst raced of
                 Inr v \<Rightarrow> (Returned (success_response v (uuidv4 env)), pre @ snd raced @ [ClearTimeout])
               | Inl e \<Rightarrow> (fst (callTool_timeout_catch env c tool_name d (uuidv4 env) e),
                            pre @ snd raced @ snd (callTool_timeout_catch env c tool_name d (uuidv4 env) e)))"
  using assms
  by (simp add: callTool_try_def Let_def case_prod_beta sent_params_def success_response_def
        timeout_message_def
      split: sum.splits)

lemma callTool_try_timer_fires:
  assumes "resolveGlobalVars env (JObj args) = Resolves ra"
    and "d \<noteq> Finite (- 1)"
    and "timer_first env \<or> client_callTool c (sent_params tool_name ra (uuidv4 env)) = NeverSettles"
  shows "fst (callTool_try c tool_name args (Some d) env) =
           timeout_outcome env c tool_name d (uuidv4 env)"
    and "effects (snd (callTool_try c tool_name args (Some d) env)) =
           [ResolveGlobalVars (JObj args), GenerateToken (uuidv4 env),
            SetTimeout (multiply env d (Finite 1000)),
            RemoteCall (sent_params tool_name ra (uuidv4 env)), Abort, ClearTimeout,
            CancelRequest (uuidv4 env) (cancel_reason env d)]
           @ send_effects c (uuidv4 env) (cancel_reason env d)"
proof -
  have race: "promise_race (timer_first env)
                (client_callTool c (sent_params tool_name ra (uuidv4 env))) (timeout_message env d)
              = (Inl (Error (timeout_message env d)), [Abort])"
    using assms(3) by (auto simp: promise_race_def split: settle.splits)
  have msg: "instanceof_Error (Error (timeout_message env d))"
    "includes_str (message_or_unknown (Error (timeout_message env d))) ''timed out''"
    using timed_out_message [of "number_toString env d"] by (simp_all add: timeout_message_def)
  show "fst (callTool_try c tool_name args (Some d) env) =
           timeout_outcome env c tool_name d (uuidv4 env)"
    unfolding callTool_try_timed [OF assms(1,2)] Let_def race
    by (simp add: callTool_timeout_catch_timed_out(1) [OF msg])
  show "effects (snd (callTool_try c tool_name args (Some d) env)) =
           [ResolveGlobalVars (JObj args), GenerateToken (uuidv4 env),
            SetTimeout (multiply env d (Finite 1000)),
            RemoteCall (sent_params tool_name ra (uuidv4 env)), Abort, ClearTimeout,
            CancelRequest (uuidv4 env) (cancel_reason env d)]
           @ send_effects c (uuidv4 env) (cancel_reason env d)"
    unfolding callTool_try_timed [OF assms(1,2)] Let_def race
    by (simp add: callTool_timeout_catch_timed_out(2) [OF msg] effects_append effects_Cons
          effects_Nil effects_normalizeToolArguments)
qed

lemma callTool_try_timed_resolves:
  assumes "resolveGlobalVars env (JObj args) = Resolves ra"
    and "d \<noteq> Finite (- 1)"
    and "\<not> timer_first env"
    and "client_callTool c (sent_params tool_name ra (uuidv4 env)) = Resolves v"
  shows "fst (callTool_try c tool_name args (Some d) env) =
           Returned (success_response v (uuidv4 env))"
    and "effects (snd (callTool_try c tool_name args (Some d) env)) =
           [ResolveGlobalVars (JObj args), GenerateToken (uuidv4 env), SetTimeout (multiply env d (Finite 1000)),
            RemoteCall (sent_params tool_name ra (uuidv4 env)), ClearTimeout]"
  unfolding callTool_try_timed [OF assms(1,2)] Let_def
  using assms(3,4)
  by (simp_all add: promise_race_def effects_append effects_Cons effects_Nil
        effects_normalizeToolArguments)

lemma callTool_try_timed_rejects:
  assumes "resolveGlobalVars env (JObj args) = Resolves ra"
    and "d \<noteq> Finite (- 1)"
    and "\<not> timer_first env"
    and "client_callTool c (sent_params tool_name ra (uuidv4 env)) = Rejects e"
  shows "fst (callTool_try c tool_name args (Some d) env) =
           fst (callTool_timeout_catch env c tool_name d (uuidv4 env) e)"
    and "effects (snd (callTool_try c tool_name args (Some d) env)) =
           [ResolveGlobalVars (JObj args), GenerateToken (uuidv4 env), SetTimeout (multiply env d (Finite 1000)),
            RemoteCall (sent_params tool_name ra (uuidv4 env))]
           @ effects (snd (callTool_timeout_catch env c tool_name d (uuidv4 env) e))"
  unfolding callTool_try_timed [OF assms(1,2)] Let_def
  using assms(3,4)
  by (simp_all add: promise_race_def effects_append effects_Cons effects_Nil
        effects_normalizeToolArguments)

lemma callTool_catch_effects: "effects (snd (callTool_catch env serverName tool_name e)) = []"
  by (simp add: callTool_catch_def Let_def case_prod_beta effects_append effects_Cons effects_Nil)

lemma callTool_catch_auth:
  assumes "auth_marker (message_or_unknown e)"
  shows "fst (callTool_catch env serverName tool_name e) = auth_failure"
  using assms
  by (simp add: callTool_catch_def Let_def auth_marker_def auth_failure_def includes_str_sublist)

lemma callTool_catch_classified:
  assumes "\<not> auth_marker (message_or_unknown e)"
  shows "fst (callTool_catch env serverName tool_name e) =
           \<lparr>success = False, data = None,
            error = Some (''Failed to call tool: ''
                          @ (if not_found_text (message_or_unknown e)
                             then ''Tool endpoint not found (404). This may indicate OAuth authentication issues or the server may not be properly configured.''
                             else message_or_unknown e)
                          @ (case e of McpError code m \<Rightarrow> '' (Code: '' @ number_toString env code @ '')''
                             | _ \<Rightarrow> [])),
            statusCode = Some (case e of
                                 McpError code m \<Rightarrow>
                                   if code = Finite (- 32601) then 404
                                   else if code = Finite (- 32602) then 400
                                   else if code = Finite (- 32603) then 500
                                   else if not_found_text (message_or_unknown e) then 404 else 500
                               | _ \<Rightarrow> if not_found_text (message_or_unknown e) then 404 else 500),
            errorType = None, toolName = None, timeout = None,
            progressToken = None, requiresAuthentication = None\<rparr>"
  using assms
  by (cases e)
     (simp_all add: callTool_catch_def Let_def auth_marker_def not_found_text_def
        includes_str_sublist)

lemma callTool_present_fst:
  "fst (callTool (Some c) serverName tool_name args timeout_s env) =
     (case fst (callTool_try c tool_name args timeout_s env) of
        Threw e \<Rightarrow> Returned (fst (callTool_catch env serverName tool_name e))
      | r \<Rightarrow> r)"
  by (simp add: callTool_def case_prod_beta split: prod.splits completion.splits)

lemma callTool_present_effects:
  "effects (snd (callTool (Some c) serverName tool_name args timeout_s env)) =
     effects (snd (callTool_try c tool_name args timeout_s env))"
  by (simp add: callTool_def case_prod_beta effects_append effects_Cons callTool_catch_effects
      split: prod.splits completion.splits)

section \<open>Which events a run contains\<close>

lemma mem_effects: "\<not> is_log e \<Longrightarrow> e \<in> set (effects events) \<longleftrightarrow> e \<in> set events"
  by (auto simp: effects_def)

lemma filter_cancel_effects:
  "filter is_cancel_request (effects events) = filter is_cancel_request events"
proof (induction events)
  case Nil
  show ?case by (simp add: effects_Nil)
next
  case (Cons e events)
  then show ?case by (cases e) (simp_all add: effects_Cons)
qed

lemma send_effects_no_cancel: "filter is_cancel_request (send_effects c i r) = []"
  by (simp add: send_effects_def split: option.splits)

lemma filter_transport_send_effects:
  "filter is_transport_send (effects events) = filter is_transport_send events"
proof (induction events)
  case Nil
  show ?case by (simp add: effects_Nil)
next
  case (Cons e events)
  then show ?case by (cases e) (simp_all add: effects_Cons)
qed

lemma send_effects_are_sends: "filter is_transport_send (send_effects c i r) = send_effects c i r"
  by (simp add: send_effects_def split: option.splits)

lemma send_effects_no_abort: "Abort \<notin> set (send_effects c i r)"
  by (simp add: send_effects_def split: option.splits)

lemma callTool_timeout_catch_no_abort:
  "Abort \<notin> set (effects (snd (callTool_timeout_catch env c tool_name d token e)))"
proof (cases "instanceof_Error e \<and> includes_str (message_or_unknown e) ''timed out''")
  case True
  then show ?thesis
    by (simp add: callTool_timeout_catch_timed_out(2) send_effects_no_abort)
next
  case False
  then show ?thesis
    by (simp add: callTool_timeout_catch_other effects_Cons effects_Nil)
qed

lemma timer_fired_iff:
  assumes "d \<noteq> Finite (- 1)"
  shows "Abort \<in> set (snd (callTool (Some c) serverName tool_name args (Some d) env)) \<longleftrightarrow>
           (\<exists>ra. resolveGlobalVars env (JObj args) = Resolves ra
                 \<and> (timer_first env
                    \<or> client_callTool c (sent_params tool_name ra (uuidv4 env)) = NeverSettles))"
proof -
  have "Abort \<in> set (effects (snd (callTool (Some c) serverName tool_name args (Some d) env))) \<longleftrightarrow>
        Abort \<in> set (snd (callTool (Some c) serverName tool_name args (Some d) env))"
    by (rule mem_effects) simp
  then have eq: "Abort \<in> set (snd (callTool (Some c) serverName tool_name args (Some d) env)) \<longleftrightarrow>
            Abort \<in> set (effects (snd (callTool_try c tool_name args (Some d) env)))"
    unfolding callTool_present_effects by (rule sym)
  show ?thesis
  proof (cases "resolveGlobalVars env (JObj args)")
    case rejected: (Rejects e)
    then show ?thesis
      unfolding eq by (simp add: callTool_try_resolve_fails effects_Cons effects_Nil)
  next
    case hangs: NeverSettles
    then show ?thesis
      unfolding eq by (simp add: callTool_try_resolve_hangs effects_Cons effects_Nil)
  next
    case resolved: (Resolves ra)
    show ?thesis
    proof (cases "timer_first env
                  \<or> client_callTool c (sent_params tool_name ra (uuidv4 env)) = NeverSettles")
      case True
      then show ?thesis
        unfolding eq using resolved
        by (simp add: callTool_try_timer_fires(2) [OF resolved assms])
    next
      case False
      then have nf: "\<not> timer_first env"
        and ns: "client_callTool c (sent_params tool_name ra (uuidv4 env)) \<noteq> NeverSettles"
        by simp_all
      show ?thesis
      proof (cases "client_callTool c (sent_params tool_name ra (uuidv4 env))")
        case (Resolves v)
        then show ?thesis
          unfolding eq using resolved False
          by (simp add: callTool_try_timed_resolves(2) [OF resolved assms nf])
      next
        case (Rejects e)
        then show ?thesis
          unfolding eq using resolved False
          by (simp add: callTool_try_timed_rejects(2) [OF resolved assms nf]
                callTool_timeout_catch_no_abort)
      next
        case NeverSettles
        with ns show ?thesis by simp
      qed
    qed
  qed
qed

lemma cancel_failure_logged:
  assumes "instanceof_Error e" and "includes_str (message_or_unknown e) ''timed out''"
    and "fst (cancelToolExecution c token (cancel_reason env d)) = Threw ce"
  shows "Log Warn (''Failed to send cancellation notification: '' @ message_or_unknown ce)
           \<in> set (snd (callTool_timeout_catch env c tool_name d token e))"
  using assms
  by (simp add: callTool_timeout_catch_def Let_def case_prod_beta cancel_reason_def)

lemma callTool_try_events_kept:
  "set (snd (callTool_try c tool_name args timeout_s env))
     \<subseteq> set (snd (callTool (Some c) serverName tool_name args timeout_s env))"
  by (auto simp: callTool_def case_prod_beta split: prod.splits completion.splits)

lemma timer_catch_events_kept:
  assumes "resolveGlobalVars env (JObj args) = Resolves ra"
    and "d \<noteq> Finite (- 1)"
    and "timer_first env \<or> client_callTool c (sent_params tool_name ra (uuidv4 env)) = NeverSettles"
  shows "set (snd (callTool_timeout_catch env c tool_name d (uuidv4 env) (Error (timeout_message env d))))
           \<subseteq> set (snd (callTool_try c tool_name args (Some d) env))"
proof -
  have race: "promise_race (timer_first env)
                (client_callTool c (sent_params tool_name ra (uuidv4 env))) (timeout_message env d)
              = (Inl (Error (timeout_message env d)), [Abort])"
    using assms(3) by (auto simp: promise_race_def split: settle.splits)
  show ?thesis
    unfolding callTool_try_timed [OF assms(1,2)] Let_def race by auto
qed

section \<open>Result and effects of \<open>callTool\<close>\<close>

lemma callTool_outcome_resolve_fails:
  assumes "resolveGlobalVars env (JObj args) = Rejects e"
  shows "fst (callTool (Some c) serverName tool_name args timeout_s env) =
           Returned (fst (callTool_catch env serverName tool_name e))"
  by (simp add: callTool_present_fst callTool_try_resolve_fails [OF assms])

lemma callTool_outcome_resolve_hangs:
  assumes "resolveGlobalVars env (JObj args) = NeverSettles"
  shows "fst (callTool (Some c) serverName tool_name args timeout_s env) = Pending"
  by (simp add: callTool_present_fst callTool_try_resolve_hangs [OF assms])

lemma callTool_outcome_untimed:
  assumes "resolveGlobalVars env (JObj args) = Resolves ra"
    and "timeout_s = None \<or> timeout_s = Some (Finite (- 1))"
  shows "fst (callTool (Some c) serverName tool_name args timeout_s env) =
           (case client_callTool c (sent_params tool_name ra (uuidv4 env)) of
              Resolves v \<Rightarrow> Returned (success_response v (uuidv4 env))
            | Rejects e \<Rightarrow> Returned (fst (callTool_catch env serverName tool_name e))
            | NeverSettles \<Rightarrow> Pending)"
  by (simp add: callTool_present_fst callTool_try_untimed(1) [OF assms] split: settle.splits)

lemma timeout_outcome_passes:
  "(case timeout_outcome env c tool_name d token of
      Threw e \<Rightarrow> Returned (fst (callTool_catch env serverName tool_name e))
    | r \<Rightarrow> r) = timeout_outcome env c tool_name d token"
  by (simp add: timeout_outcome_def)

lemma callTool_outcome_timer:
  assumes "resolveGlobalVars env (JObj args) = Resolves ra"
    and "d \<noteq> Finite (- 1)"
    and "timer_first env \<or> client_callTool c (sent_params tool_name ra (uuidv4 env)) = NeverSettles"
  shows "fst (callTool (Some c) serverName tool_name args (Some d) env) =
           timeout_outcome env c tool_name d (uuidv4 env)"
  by (simp only: callTool_present_fst callTool_try_timer_fires(1) [OF assms]
        timeout_outcome_passes)

lemma callTool_outcome_timed_resolves:
  assumes "resolveGlobalVars env (JObj args) = Resolves ra"
    and "d \<noteq> Finite (- 1)"
    and "\<not> timer_first env"
    and "client_callTool c (sent_params tool_name ra (uuidv4 env)) = Resolves v"
  shows "fst (callTool (Some c) serverName tool_name args (Some d) env) =
           Returned (success_response v (uuidv4 env))"
  by (simp add: callTool_present_fst callTool_try_timed_resolves(1) [OF assms])

lemma callTool_outcome_timed_rejects:
  assumes "resolveGlobalVars env (JObj args) = Resolves ra"
    and "d \<noteq> Finite (- 1)"
    and "\<not> timer_first env"
    and "client_callTool c (sent_params tool_name ra (uuidv4 env)) = Rejects e"
  shows "fst (callTool (Some c) serverName tool_name args (Some d) env) =
           (if instanceof_Error e \<and> includes_str (message_or_unknown e) ''timed out''
            then timeout_outcome env c tool_name d (uuidv4 env)
            else Returned (fst (callTool_catch env serverName tool_name e)))"
proof (cases "instanceof_Error e \<and> includes_str (message_or_unknown e) ''timed out''")
  case True
  then have "fst (callTool_timeout_catch env c tool_name d (uuidv4 env) e) =
             timeout_outcome env c tool_name d (uuidv4 env)"
    by (simp add: callTool_timeout_catch_timed_out(1))
  with True show ?thesis
    by (simp add: callTool_present_fst callTool_try_timed_rejects(1) [OF assms]
          timeout_outcome_passes)
next
  case False
  then have "callTool_timeout_catch env c tool_name d (uuidv4 env) e = (Threw e, [ClearTimeout])"
    by (rule callTool_timeout_catch_other)
  with False show ?thesis
    by (auto simp add: callTool_present_fst callTool_try_timed_rejects(1) [OF assms])
qed

lemma timed_out_is_Error:
  "includes_str (message_or_unknown e) ''timed out'' \<Longrightarrow> instanceof_Error e"
  by (cases e) simp_all

lemma callTool_catch_errorType: "errorType (fst (callTool_catch env serverName tool_name e)) = None"
  by (cases "auth_marker (message_or_unknown e)")
     (simp_all add: callTool_catch_auth callTool_catch_classified auth_failure_def)

lemma callTool_catch_failure: "\<not> success (fst (callTool_catch env serverName tool_name e))"
  by (cases "auth_marker (message_or_unknown e)")
     (simp_all add: callTool_catch_auth callTool_catch_classified auth_failure_def)

lemma filter_timer_or_cancel_effects:
  "filter timer_or_cancel (effects events) = filter timer_or_cancel events"
proof (induction events)
  case Nil
  show ?case by (simp add: effects_Nil)
next
  case (Cons e events)
  then show ?case by (cases e) (simp_all add: effects_Cons)
qed

text \<open>The result of \<open>callTool\<close> in one equation.\<close>

lemma callTool_outcome:
  "fst (callTool client serverName tool_name args timeout_s env) =
     (case client of
        None \<Rightarrow>
          Returned
            \<lparr>success = False, data = None,
             error = Some (''Server '' @ serverName @ '' not found''),
             statusCode = Some 404, errorType = None, toolName = None, timeout = None,
             progressToken = None, requiresAuthentication = None\<rparr>
      | Some c \<Rightarrow>
          (case resolveGlobalVars env (JObj args) of
             Rejects e \<Rightarrow> Returned (fst (callTool_catch env serverName tool_name e))
           | NeverSettles \<Rightarrow> Pending
           | Resolves ra \<Rightarrow>
               (let remote = client_callTool c (sent_params tool_name ra (uuidv4 env));
                    untimed =
                      (case remote of
                         Resolves v \<Rightarrow> Returned (success_response v (uuidv4 env))
                       | Rejects e \<Rightarrow> Returned (fst (callTool_catch env serverName tool_name e))
                       | NeverSettles \<Rightarrow> Pending)
                in case timeout_s of
                     None \<Rightarrow> untimed
                   | Some d \<Rightarrow>
                       if d = Finite (- 1) then untimed
                       else if timer_first env then
                         timeout_outcome env c tool_name d (uuidv4 env)
                       else
                         (case remote of
                            Resolves v \<Rightarrow> Returned (success_response v (uuidv4 env))
                          | Rejects e \<Rightarrow>
                              if instanceof_Error e
                                 \<and> includes_str (message_or_unknown e) ''timed out''
                              then timeout_outcome env c tool_name d (uuidv4 env)
                              else Returned (fst (callTool_catch env serverName tool_name e))
                          | NeverSettles \<Rightarrow> timeout_outcome env c tool_name d (uuidv4 env)))))"
proof (cases client)
  case None
  then show ?thesis by (simp add: callTool_def)
next
  case (Some c)
  show ?thesis
  proof (cases "resolveGlobalVars env (JObj args)")
    case rejected: (Rejects e)
    then show ?thesis
      unfolding Some by (simp add: callTool_outcome_resolve_fails [OF rejected])
  next
    case hangs: NeverSettles
    then show ?thesis
      unfolding Some by (simp add: callTool_outcome_resolve_hangs [OF hangs])
  next
    case resolved: (Resolves ra)
    show ?thesis
    proof (cases "timeout_s = None \<or> timeout_s = Some (Finite (- 1))")
      case True
      then show ?thesis
        unfolding Some using resolved
        by (auto simp add: callTool_outcome_untimed [OF resolved True] Let_def)
    next
      case False
      then obtain d where d: "timeout_s = Some d" "d \<noteq> Finite (- 1)" by (cases timeout_s) auto
      show ?thesis
      proof (cases "timer_first env")
        case True
        then show ?thesis
          unfolding Some d(1) using resolved d(2)
          by (simp add: callTool_outcome_timer [OF resolved d(2)] Let_def)
      next
        case nf: False
        show ?thesis
        proof (cases "client_callTool c (sent_params tool_name ra (uuidv4 env))")
          case (Resolves v)
          then show ?thesis
            unfolding Some d(1) using resolved d(2) nf
            by (simp add: callTool_outcome_timed_resolves [OF resolved d(2) nf Resolves] Let_def)
        next
          case (Rejects e)
          then show ?thesis
            unfolding Some d(1) using resolved d(2) nf
            by (simp add: callTool_outcome_timed_rejects [OF resolved d(2) nf Rejects] Let_def)
        next
          case NeverSettles
          then show ?thesis
            unfolding Some d(1) using resolved d(2) nf
            by (simp add: callTool_outcome_timer [OF resolved d(2)] Let_def)
        qed
      qed
    qed
  qed
qed

text \<open>The effects of \<open>callTool\<close>, log lines apart, in one equation.\<close>

lemma callTool_effects:
  "effects (snd (callTool client serverName tool_name args timeout_s env)) =
     (case client of
        None \<Rightarrow> []
      | Some c \<Rightarrow>
          (case resolveGlobalVars env (JObj args) of
             Rejects e \<Rightarrow> [ResolveGlobalVars (JObj args)]
           | NeverSettles \<Rightarrow> [ResolveGlobalVars (JObj args)]
           | Resolves ra \<Rightarrow>
               (let envelope = sent_params tool_name ra (uuidv4 env);
                    remote = client_callTool c envelope
                in [ResolveGlobalVars (JObj args), GenerateToken (uuidv4 env)]
                   @ (case timeout_s of
                        None \<Rightarrow> [RemoteCall envelope]
                      | Some d \<Rightarrow>
                          if d = Finite (- 1) then [RemoteCall envelope]
                          else
                            [SetTimeout (multiply env d (Finite 1000)), RemoteCall envelope]
                            @ (if timer_first env \<or> remote = NeverSettles then
                                 [Abort, ClearTimeout,
                                  CancelRequest (uuidv4 env) (cancel_reason env d)]
                                 @ send_effects c (uuidv4 env) (cancel_reason env d)
                               else
                                 (case remote of
                                    Rejects e \<Rightarrow>
                                      ClearTimeout
                                      # (if instanceof_Error e
                                            \<and> includes_str (message_or_unknown e) ''timed out''
                                         then CancelRequest (uuidv4 env) (cancel_reason env d)
                                              # send_effects c (uuidv4 env) (cancel_reason env d)
                                         else [])
                                  | _ \<Rightarrow> [ClearTimeout]))))))"
proof (cases client)
  case None
  then show ?thesis by (simp add: callTool_def effects_Cons effects_Nil)
next
  case (Some c)
  show ?thesis
  proof (cases "resolveGlobalVars env (JObj args)")
    case rejected: (Rejects e)
    then show ?thesis
      unfolding Some
      by (simp add: callTool_present_effects callTool_try_resolve_fails [OF rejected]
            effects_Cons effects_Nil)
  next
    case hangs: NeverSettles
    then show ?thesis
      unfolding Some
      by (simp add: callTool_present_effects callTool_try_resolve_hangs [OF hangs]
            effects_Cons effects_Nil)
  next
    case resolved: (Resolves ra)
    show ?thesis
    proof (cases "timeout_s = None \<or> timeout_s = Some (Finite (- 1))")
      case True
      then show ?thesis
        unfolding Some using resolved
        by (auto simp add: callTool_present_effects callTool_try_untimed(2) [OF resolved True]
              Let_def)
    next
      case False
      then obtain d where d: "timeout_s = Some d" "d \<noteq> Finite (- 1)" by (cases timeout_s) auto
      show ?thesis
      proof (cases "timer_first env
                    \<or> client_callTool c (sent_params tool_name ra (uuidv4 env)) = NeverSettles")
        case True
        then show ?thesis
          unfolding Some d(1) using resolved d(2)
          by (simp add: callTool_present_effects
                callTool_try_timer_fires(2) [OF resolved d(2) True] Let_def)
      next
        case False
        then have nf: "\<not> timer_first env"
          and ns: "client_callTool c (sent_params tool_name ra (uuidv4 env)) \<noteq> NeverSettles"
          by simp_all
        show ?thesis
        proof (cases "client_callTool c (sent_params tool_name ra (uuidv4 env))")
          case (Resolves v)
          then show ?thesis
            unfolding Some d(1) using resolved d(2) nf
            by (simp add: callTool_present_effects
                  callTool_try_timed_resolves(2) [OF resolved d(2) nf Resolves] Let_def)
        next
          case (Rejects e)
          show ?thesis
          proof (cases "instanceof_Error e \<and> includes_str (message_or_unknown e) ''timed out''")
            case True
            then show ?thesis
              unfolding Some d(1) using resolved d(2) nf Rejects
              by (simp add: callTool_present_effects
                    callTool_try_timed_rejects(2) [OF resolved d(2) nf Rejects]
                    callTool_timeout_catch_timed_out(2) Let_def)
          next
            case other: False
            have "callTool_timeout_catch env c tool_name d (uuidv4 env) e = (Threw e, [ClearTimeout])"
              using other by (rule callTool_timeout_catch_other)
            then show ?thesis
              unfolding Some d(1) using resolved d(2) nf Rejects other
              by (auto simp add: callTool_present_effects
                    callTool_try_timed_rejects(2) [OF resolved d(2) nf Rejects] Let_def
                    effects_Cons effects_Nil)
          qed
        next
          case NeverSettles
          with ns show ?thesis by simp
        qed
      qed
    qed
  qed
qed

lemma callTool_outcome_classified:
  assumes "resolveGlobalVars env (JObj args) = Resolves ra"
    and "client_callTool c (sent_params tool_name ra (uuidv4 env)) = Rejects e"
    and "reaches_classifier timeout_s env e"
  shows "fst (callTool (Some c) serverName tool_name args timeout_s env) =
           Returned (fst (callTool_catch env serverName tool_name e))"
  unfolding callTool_outcome using assms
  by (auto simp add: reaches_classifier_def Let_def includes_str_sublist split: option.splits)

section \<open>The tracking token\<close>

lemma send_effects_carry: "list_all (carries_token token) (send_effects c token reason)"
  by (simp add: send_effects_def cancellation_def split: option.splits)

lemma carries_token_effects:
  "list_all (carries_token token) (effects events) = list_all (carries_token token) events"
proof (induction events)
  case Nil
  show ?case by (simp add: effects_Nil)
next
  case (Cons e events)
  then show ?case by (cases e) (simp_all add: effects_Cons)
qed

lemma callTool_events_carry_token:
  "list_all (carries_token (uuidv4 env))
     (snd (callTool client serverName tool_name args timeout_s env))"
proof -
  have "list_all (carries_token (uuidv4 env))
          (effects (snd (callTool client serverName tool_name args timeout_s env)))"
    unfolding callTool_effects
    by (simp add: Let_def sent_params_def send_effects_carry
        split: option.splits settle.splits)
  then show ?thesis by (simp only: carries_token_effects)
qed

lemma filter_generate_token_effects:
  "filter is_generate_token (effects events) = filter is_generate_token events"
proof (induction events)
  case Nil
  show ?case by (simp add: effects_Nil)
next
  case (Cons e events)
  then show ?case by (cases e) (simp_all add: effects_Cons)
qed

lemma send_effects_no_token: "filter is_generate_token (send_effects c i r) = []"
  by (simp add: send_effects_def split: option.splits)

lemma generated_tokens:
  "filter is_generate_token (snd (callTool client serverName tool_name args timeout_s env)) =
     (case client of
        None \<Rightarrow> []
      | Some c \<Rightarrow>
          (case resolveGlobalVars env (JObj args) of
             Resolves ra \<Rightarrow> [GenerateToken (uuidv4 env)]
           | Rejects e \<Rightarrow> []
           | NeverSettles \<Rightarrow> []))"
proof -
  have "filter is_generate_token (snd (callTool client serverName tool_name args timeout_s env)) =
        filter is_generate_token
          (effects (snd (callTool client serverName tool_name args timeout_s env)))"
    by (rule filter_generate_token_effects [symmetric])
  then show ?thesis
    by (simp add: callTool_effects Let_def send_effects_no_token
        split: option.splits settle.splits)
qed

lemma result_token:
  assumes "fst (callTool client serverName tool_name args timeout_s env) = Returned r"
    and "success r \<or> errorType r = Some ''timeout''"
  shows "progressToken r = Some (uuidv4 env)"
  using assms unfolding callTool_outcome
  by (auto simp add: Let_def success_response_def timeout_response_def timeout_outcome_def
        callTool_catch_failure callTool_catch_errorType
      split: option.splits settle.splits if_splits)

lemma remote_call_issued:
  assumes "resolveGlobalVars env (JObj args) = Resolves ra"
  shows "RemoteCall (sent_params tool_name ra (uuidv4 env))
           \<in> set (snd (callTool (Some c) serverName tool_name args timeout_s env))"
proof -
  have "RemoteCall (sent_params tool_name ra (uuidv4 env))
          \<in> set (effects (snd (callTool (Some c) serverName tool_name args timeout_s env)))"
    unfolding callTool_effects using assms
    by (simp add: Let_def split: option.splits)
  then show ?thesis by (simp add: mem_effects)
qed

section \<open>Claims\<close>

text \<open>
  C5. The normalizer does not return the same keys for every argument record: on a
  record with an own property named \<open>__proto__\<close> (as \<open>JSON.parse\<close> produces) the
  assignment \<open>normalizedArgs[key] = value\<close> runs the prototype's setter, so the
  property is dropped although its value is present, where the source's own comment
  says the original value is kept. The other properties are normalized as the claim
  says (\<open>normalizeToolArguments_defaults\<close> above).
\<close>

theorem normalizeToolArguments_drops_proto:
  "fst (normalizeToolArguments
          (Some [(''__proto__'', JStr ''x''), (''pageLimit'', JNull), (''path'', JStr ''/tmp/a'')])
          ''echo'') =
     [(''pageLimit'', JNum (Finite 0)), (''path'', JStr ''/tmp/a'')]"
  by (simp add: normalizeToolArguments_def assign_property_def normalize_entry_def Let_def
        endsWith_def startsWith_def)

text \<open>
  C1 (as amended). With a handle present and a positive \<open>timeoutSeconds = d\<close>, when the
  timer fires before the remote call settles (the run contains the abort), the
  cancellation is requested exactly once, with the call's token, and the notification
  with that token as \<open>requestId\<close> is what the transport's send receives (nothing is sent
  when the client has no transport or the transport no send). Once that awaited send has
  settled, whether it succeeded or failed, \<open>callTool\<close> returns the failure with
  \<open>errorType\<close> timeout, status 408, the message naming \<open>d\<close> as the engine prints it, and
  the same token; a failed cancellation is logged as a warning and changes nothing.
\<close>

theorem callTool_timer_fires:
  assumes "is_positive d"
    and "Abort \<in> set (snd (callTool (Some c) serverName tool_name args (Some d) env))"
  shows "filter is_cancel_request (snd (callTool (Some c) serverName tool_name args (Some d) env)) =
           [CancelRequest (uuidv4 env)
              (''Execution timed out after '' @ number_toString env d @ '' seconds'')]
         \<and> filter is_transport_send
             (snd (callTool (Some c) serverName tool_name args (Some d) env)) =
             (case client_transport c of
                None \<Rightarrow> []
              | Some tp \<Rightarrow>
                  (case send tp of
                     None \<Rightarrow> []
                   | Some f \<Rightarrow>
                       [TransportSend
                          \<lparr>jsonrpc = ''2.0'', notification_method = ''notifications/cancelled'',
                           params_requestId = uuidv4 env,
                           params_reason = ''Execution timed out after ''
                                           @ number_toString env d @ '' seconds''\<rparr>]))
         \<and> (\<not> send_never_settles c (uuidv4 env)
                 (''Execution timed out after '' @ number_toString env d @ '' seconds'') \<longrightarrow>
              fst (callTool (Some c) serverName tool_name args (Some d) env) =
                Returned
                  \<lparr>success = False, data = None,
                   error = Some (''Tool execution timed out after '' @ number_toString env d
                                 @ '' seconds''),
                   statusCode = Some 408, errorType = Some ''timeout'',
                   toolName = Some tool_name, timeout = Some d,
                   progressToken = Some (uuidv4 env), requiresAuthentication = None\<rparr>)
         \<and> (\<forall>cancelError.
               fst (cancelToolExecution c (uuidv4 env)
                      (''Execution timed out after '' @ number_toString env d @ '' seconds''))
                 = Threw cancelError \<longrightarrow>
               Log Warn (''Failed to send cancellation notification: ''
                         @ message_or_unknown cancelError)
                 \<in> set (snd (callTool (Some c) serverName tool_name args (Some d) env)))"
proof -
  from assms(1) have d: "d \<noteq> Finite (- 1)" by (cases d) auto
  from assms(2) obtain ra where ra: "resolveGlobalVars env (JObj args) = Resolves ra"
    and fires: "timer_first env
                \<or> client_callTool c (sent_params tool_name ra (uuidv4 env)) = NeverSettles"
    unfolding timer_fired_iff [OF d] by blast
  have result: "fst (callTool (Some c) serverName tool_name args (Some d) env) =
                  Returned (timeout_response env tool_name d (uuidv4 env))"
    if "\<not> send_never_settles c (uuidv4 env) (cancel_reason env d)"
    using that by (simp add: callTool_outcome_timer [OF ra d fires] timeout_outcome_def)
  have eff: "effects (snd (callTool (Some c) serverName tool_name args (Some d) env)) =
               [ResolveGlobalVars (JObj args), GenerateToken (uuidv4 env),
                SetTimeout (multiply env d (Finite 1000)),
                RemoteCall (sent_params tool_name ra (uuidv4 env)), Abort, ClearTimeout,
                CancelRequest (uuidv4 env) (cancel_reason env d)]
               @ send_effects c (uuidv4 env) (cancel_reason env d)"
    by (simp only: callTool_present_effects callTool_try_timer_fires(2) [OF ra d fires])
  have "filter is_cancel_request (snd (callTool (Some c) serverName tool_name args (Some d) env)) =
        filter is_cancel_request
          (effects (snd (callTool (Some c) serverName tool_name args (Some d) env)))"
    by (rule filter_cancel_effects [symmetric])
  then have once: "filter is_cancel_request
                     (snd (callTool (Some c) serverName tool_name args (Some d) env)) =
                   [CancelRequest (uuidv4 env) (cancel_reason env d)]"
    by (simp add: eff send_effects_no_cancel)
  have "filter is_transport_send (snd (callTool (Some c) serverName tool_name args (Some d) env)) =
        filter is_transport_send
          (effects (snd (callTool (Some c) serverName tool_name args (Some d) env)))"
    by (rule filter_transport_send_effects [symmetric])
  then have sent: "filter is_transport_send
                     (snd (callTool (Some c) serverName tool_name args (Some d) env)) =
                   send_effects c (uuidv4 env) (cancel_reason env d)"
    by (simp add: eff send_effects_are_sends)
  have logged: "Log Warn (''Failed to send cancellation notification: ''
                          @ message_or_unknown cancelError)
                  \<in> set (snd (callTool (Some c) serverName tool_name args (Some d) env))"
    if "fst (cancelToolExecution c (uuidv4 env) (cancel_reason env d)) = Threw cancelError"
    for cancelError
  proof -
    have msg: "instanceof_Error (Error (timeout_message env d))"
      "includes_str (message_or_unknown (Error (timeout_message env d))) ''timed out''"
      using timed_out_message [of "number_toString env d"] by (simp_all add: timeout_message_def)
    have "Log Warn (''Failed to send cancellation notification: ''
                    @ message_or_unknown cancelError)
            \<in> set (snd (callTool_timeout_catch env c tool_name d (uuidv4 env)
                           (Error (timeout_message env d))))"
      using msg that by (rule cancel_failure_logged)
    then show ?thesis
      using timer_catch_events_kept [OF ra d fires] callTool_try_events_kept by blast
  qed
  note defs = timeout_response_def cancel_reason_def send_effects_def cancellation_def
  show ?thesis
    using result [unfolded defs] once [unfolded defs] sent [unfolded defs]
      logged [unfolded defs]
    by blast
qed

theorem callTool_timer_fires_witness:
  "fst (callTool (Some (example_client NeverSettles)) ''files'' ''read_file''
          [(''path'', JStr ''/tmp/a'')] (Some (Finite 1)) example_env) =
     Returned
       \<lparr>success = False, data = None,
        error = Some ''Tool execution timed out after 1 seconds'',
        statusCode = Some 408, errorType = Some ''timeout'', toolName = Some ''read_file'',
        timeout = Some (Finite 1), progressToken = Some ''3f2c9a1e-5b7d-4c8a-9e10-6d2b4f8a1c35'',
        requiresAuthentication = None\<rparr>
   \<and> filter is_cancel_request
         (snd (callTool (Some (example_client NeverSettles)) ''files'' ''read_file''
                 [(''path'', JStr ''/tmp/a'')] (Some (Finite 1)) example_env)) =
       [CancelRequest ''3f2c9a1e-5b7d-4c8a-9e10-6d2b4f8a1c35'' ''Execution timed out after 1 seconds'']
   \<and> filter is_transport_send
         (snd (callTool (Some (example_client NeverSettles)) ''files'' ''read_file''
                 [(''path'', JStr ''/tmp/a'')] (Some (Finite 1)) example_env)) =
       [TransportSend
          \<lparr>jsonrpc = ''2.0'', notification_method = ''notifications/cancelled'',
           params_requestId = ''3f2c9a1e-5b7d-4c8a-9e10-6d2b4f8a1c35'',
           params_reason = ''Execution timed out after 1 seconds''\<rparr>]
   \<and> Log Warn ''Failed to send cancellation notification: socket closed''
       \<in> set (snd (callTool (Some (example_client NeverSettles)) ''files'' ''read_file''
                       [(''path'', JStr ''/tmp/a'')] (Some (Finite 1)) example_env))"
proof -
  have pos: "is_positive (Finite 1)" by simp
  have fired: "Abort \<in> set (snd (callTool (Some (example_client NeverSettles)) ''files''
                  ''read_file'' [(''path'', JStr ''/tmp/a'')] (Some (Finite 1)) example_env))"
    by (simp add: timer_fired_iff example_env_def example_client_def example_client_sending_def)
  have one: "number_toString example_env (Finite 1) = ''1''"
    by (simp add: example_env_def)
  have tok: "uuidv4 example_env = ''3f2c9a1e-5b7d-4c8a-9e10-6d2b4f8a1c35''"
    by (simp add: example_env_def)
  have failed: "fst (cancelToolExecution (example_client NeverSettles) (uuidv4 example_env)
                  (''Execution timed out after '' @ number_toString example_env (Finite 1)
                   @ '' seconds''))
                = Threw (Error ''socket closed'')"
    by (simp add: cancelToolExecution_def example_client_def example_client_sending_def Let_def)
  have settles: "\<not> send_never_settles (example_client NeverSettles) (uuidv4 example_env)
                  (''Execution timed out after '' @ number_toString example_env (Finite 1)
                   @ '' seconds'')"
    by (simp add: send_never_settles_def example_client_def example_client_sending_def)
  show ?thesis
    using callTool_timer_fires [of "Finite 1" "example_client NeverSettles" "''files''"
            "''read_file''" "[(''path'', JStr ''/tmp/a'')]" example_env, OF pos fired]
          failed settles
    by (simp add: one tok example_client_def example_client_sending_def)
qed

theorem callTool_timer_fires_pending_counterexample:
  "is_positive (Finite 1)
   \<and> Abort \<in> set (snd (callTool (Some (example_client_sending NeverSettles NeverSettles)) ''files''
                        ''read_file'' [] (Some (Finite 1)) example_env))
   \<and> fst (callTool (Some (example_client_sending NeverSettles NeverSettles)) ''files''
            ''read_file'' [] (Some (Finite 1)) example_env) = Pending"
proof -
  have "Abort \<in> set (snd (callTool (Some (example_client_sending NeverSettles NeverSettles))
                  ''files'' ''read_file'' [] (Some (Finite 1)) example_env))"
    by (simp add: timer_fired_iff example_env_def example_client_sending_def)
  moreover have "fst (callTool (Some (example_client_sending NeverSettles NeverSettles)) ''files''
            ''read_file'' [] (Some (Finite 1)) example_env) = Pending"
    by (simp add: callTool_outcome example_env_def example_client_sending_def Let_def
          timeout_outcome_def send_never_settles_def)
  ultimately show ?thesis by simp
qed

text \<open>
  C7 (as amended). With the handle absent \<open>callTool\<close> returns at once the failure with
  status 404 whose message names the server, \<open>Server <serverName> not found\<close>; the run
  consists of two log lines: no argument is resolved or normalized, no token is
  generated, no collaborator is called.
\<close>

theorem callTool_absent_handle:
  "callTool None serverName tool_name args timeout_s env =
     (Returned
        \<lparr>success = False, data = None,
         error = Some (''Server '' @ serverName @ '' not found''),
         statusCode = Some 404, errorType = None, toolName = None, timeout = None,
         progressToken = None, requiresAuthentication = None\<rparr>,
      [Log Debug ''Entering callTool method'',
       Log Warn (''Server '' @ serverName @ '' not found'')])
   \<and> effects (snd (callTool None serverName tool_name args timeout_s env)) = []"
  by (simp add: callTool_def effects_Cons effects_Nil)

theorem callTool_absent_handle_witness:
  "fst (callTool None ''files'' ''read_file'' [(''path'', JNull)] (Some (Finite 5)) example_env) =
     Returned
        \<lparr>success = False, data = None, error = Some ''Server files not found'',
         statusCode = Some 404, errorType = None, toolName = None, timeout = None,
         progressToken = None, requiresAuthentication = None\<rparr>"
  using callTool_absent_handle [of "''files''" "''read_file''" "[(''path'', JNull)]"
          "Some (Finite 5)" example_env]
  by simp

theorem callTool_absent_handle_message_counterexample:
  "fst (callTool None ''files'' ''read_file'' [] None example_env) =
     Returned
        \<lparr>success = False, data = None, error = Some ''Server files not found'',
         statusCode = Some 404, errorType = None, toolName = None, timeout = None,
         progressToken = None, requiresAuthentication = None\<rparr>
   \<and> ''Server files not found'' \<noteq> ''Server not found''"
  by (simp add: callTool_def)

text \<open>
  C6. For a present handle and every outcome of the remote call (resolved, rejected or
  never settling) and of argument resolution, \<open>timeoutSeconds = -1\<close> and an absent
  \<open>timeoutSeconds\<close> give the same result and the same effects apart from log lines;
  neither run sets or clears a timer, aborts, or requests a cancellation.
\<close>

theorem callTool_infinite_same_as_absent:
  "fst (callTool (Some c) serverName tool_name args (Some (Finite (- 1))) env) =
     fst (callTool (Some c) serverName tool_name args None env)
   \<and> effects (snd (callTool (Some c) serverName tool_name args (Some (Finite (- 1))) env)) =
       effects (snd (callTool (Some c) serverName tool_name args None env))
   \<and> filter timer_or_cancel
         (snd (callTool (Some c) serverName tool_name args (Some (Finite (- 1))) env)) = []
   \<and> filter timer_or_cancel (snd (callTool (Some c) serverName tool_name args None env)) = []"
proof -
  have results: "fst (callTool (Some c) serverName tool_name args (Some (Finite (- 1))) env) =
                 fst (callTool (Some c) serverName tool_name args None env)"
    by (simp add: callTool_outcome Let_def split: settle.splits)
  have same: "effects (snd (callTool (Some c) serverName tool_name args (Some (Finite (- 1))) env)) =
              effects (snd (callTool (Some c) serverName tool_name args None env))"
    by (simp add: callTool_effects Let_def split: settle.splits)
  have none: "filter timer_or_cancel (snd (callTool (Some c) serverName tool_name args t env)) = []"
    if "t = None \<or> t = Some (Finite (- 1))" for t
    unfolding filter_timer_or_cancel_effects
                [of "snd (callTool (Some c) serverName tool_name args t env)", symmetric]
    using that by (auto simp add: callTool_effects Let_def split: settle.splits)
  show ?thesis
    using results same none by simp
qed

theorem callTool_infinite_same_as_absent_witness:
  "fst (callTool (Some (example_client (Resolves (JStr ''done'')))) ''files'' ''read_file''
          [(''path'', JNull)] (Some (Finite (- 1))) example_env) =
   fst (callTool (Some (example_client (Resolves (JStr ''done'')))) ''files'' ''read_file''
          [(''path'', JNull)] None example_env)
   \<and> fst (callTool (Some (example_client (Resolves (JStr ''done'')))) ''files'' ''read_file''
          [(''path'', JNull)] None example_env) =
     Returned
       \<lparr>success = True, data = Some (JStr ''done''), error = None, statusCode = None,
        errorType = None, toolName = None, timeout = None,
        progressToken = Some ''3f2c9a1e-5b7d-4c8a-9e10-6d2b4f8a1c35'',
        requiresAuthentication = None\<rparr>"
proof -
  have "fst (callTool (Some (example_client (Resolves (JStr ''done'')))) ''files'' ''read_file''
          [(''path'', JNull)] None example_env) =
     Returned
       \<lparr>success = True, data = Some (JStr ''done''), error = None, statusCode = None,
        errorType = None, toolName = None, timeout = None,
        progressToken = Some ''3f2c9a1e-5b7d-4c8a-9e10-6d2b4f8a1c35'',
        requiresAuthentication = None\<rparr>"
    by (simp add: callTool_outcome_untimed [of _ _ "JObj [(''path'', JNull)]"] example_env_def
          example_client_def example_client_sending_def success_response_def)
  then show ?thesis
    using callTool_infinite_same_as_absent [of "example_client (Resolves (JStr ''done''))"
            "''files''" "''read_file''" "[(''path'', JNull)]" example_env]
    by simp
qed

text \<open>
  C10 (as amended). Under a positive \<open>timeoutSeconds = d\<close>, a rejection of the remote
  call whose message contains \<open>timed out\<close> is handled on the timeout path and not by
  the error classifier, whichever of the remote call and the timer settles first: the
  cancellation is requested once with the call's token and the notification with that
  token is what the transport's send receives; once that awaited send has settled,
  \<open>callTool\<close> returns the local timeout failure (status 408, \<open>errorType\<close> timeout,
  the message naming \<open>d\<close>).
\<close>

theorem remote_timed_out_rejection_is_local_timeout:
  assumes "is_positive d"
    and "resolveGlobalVars env (JObj args) = Resolves ra"
    and "client_callTool c (sent_params tool_name ra (uuidv4 env)) = Rejects e"
    and "sublist ''timed out'' (message_or_unknown e)"
  shows "filter is_cancel_request (snd (callTool (Some c) serverName tool_name args (Some d) env)) =
           [CancelRequest (uuidv4 env)
              (''Execution timed out after '' @ number_toString env d @ '' seconds'')]
         \<and> filter is_transport_send
             (snd (callTool (Some c) serverName tool_name args (Some d) env)) =
             (case client_transport c of
                None \<Rightarrow> []
              | Some tp \<Rightarrow>
                  (case send tp of
                     None \<Rightarrow> []
                   | Some f \<Rightarrow>
                       [TransportSend
                          \<lparr>jsonrpc = ''2.0'', notification_method = ''notifications/cancelled'',
                           params_requestId = uuidv4 env,
                           params_reason = ''Execution timed out after ''
                                           @ number_toString env d @ '' seconds''\<rparr>]))
         \<and> (\<not> send_never_settles c (uuidv4 env)
                 (''Execution timed out after '' @ number_toString env d @ '' seconds'') \<longrightarrow>
              fst (callTool (Some c) serverName tool_name args (Some d) env) =
                Returned
                  \<lparr>success = False, data = None,
                   error = Some (''Tool execution timed out after '' @ number_toString env d
                                 @ '' seconds''),
                   statusCode = Some 408, errorType = Some ''timeout'',
                   toolName = Some tool_name, timeout = Some d,
                   progressToken = Some (uuidv4 env), requiresAuthentication = None\<rparr>)
         \<and> fst (callTool (Some c) serverName tool_name args (Some d) env) \<noteq>
             Returned (fst (callTool_catch env serverName tool_name e))"
proof -
  from assms(1) have d: "d \<noteq> Finite (- 1)" by (cases d) auto
  from assms(4) have inc: "includes_str (message_or_unknown e) ''timed out''"
    by (simp add: includes_str_sublist)
  then have err: "instanceof_Error e" by (rule timed_out_is_Error)
  have outcome: "fst (callTool (Some c) serverName tool_name args (Some d) env) =
                   timeout_outcome env c tool_name d (uuidv4 env)"
  proof (cases "timer_first env")
    case True
    then show ?thesis by (simp add: callTool_outcome_timer [OF assms(2) d])
  next
    case False
    then show ?thesis
      using inc err by (simp add: callTool_outcome_timed_rejects [OF assms(2) d False assms(3)])
  qed
  have result: "fst (callTool (Some c) serverName tool_name args (Some d) env) =
                  Returned (timeout_response env tool_name d (uuidv4 env))"
    if "\<not> send_never_settles c (uuidv4 env) (cancel_reason env d)"
    using that by (simp add: outcome timeout_outcome_def)
  have cancels: "filter is_cancel_request
                   (effects (snd (callTool_try c tool_name args (Some d) env))) =
                 [CancelRequest (uuidv4 env) (cancel_reason env d)]"
    and sends: "filter is_transport_send
                  (effects (snd (callTool_try c tool_name args (Some d) env))) =
                send_effects c (uuidv4 env) (cancel_reason env d)"
  proof -
    have eff: "effects (snd (callTool_try c tool_name args (Some d) env)) =
                 [ResolveGlobalVars (JObj args), GenerateToken (uuidv4 env),
                  SetTimeout (multiply env d (Finite 1000)),
                  RemoteCall (sent_params tool_name ra (uuidv4 env))]
                 @ (if timer_first env then [Abort] else [])
                 @ [ClearTimeout, CancelRequest (uuidv4 env) (cancel_reason env d)]
                 @ send_effects c (uuidv4 env) (cancel_reason env d)"
    proof (cases "timer_first env")
      case True
      then show ?thesis
        by (simp add: callTool_try_timer_fires(2) [OF assms(2) d])
    next
      case False
      then show ?thesis
        by (simp add: callTool_try_timed_rejects(2) [OF assms(2) d False assms(3)]
              callTool_timeout_catch_timed_out(2) [OF err inc])
    qed
    show "filter is_cancel_request
            (effects (snd (callTool_try c tool_name args (Some d) env))) =
          [CancelRequest (uuidv4 env) (cancel_reason env d)]"
      by (simp add: eff send_effects_no_cancel)
    show "filter is_transport_send
            (effects (snd (callTool_try c tool_name args (Some d) env))) =
          send_effects c (uuidv4 env) (cancel_reason env d)"
      by (simp add: eff send_effects_are_sends)
  qed
  have once: "filter is_cancel_request
                (snd (callTool (Some c) serverName tool_name args (Some d) env)) =
              [CancelRequest (uuidv4 env) (cancel_reason env d)]"
    using cancels
    unfolding callTool_present_effects [of c serverName, symmetric] filter_cancel_effects .
  have sent: "filter is_transport_send
                (snd (callTool (Some c) serverName tool_name args (Some d) env)) =
              send_effects c (uuidv4 env) (cancel_reason env d)"
    using sends
    unfolding callTool_present_effects [of c serverName, symmetric]
      filter_transport_send_effects .
  have other: "fst (callTool (Some c) serverName tool_name args (Some d) env) \<noteq>
               Returned (fst (callTool_catch env serverName tool_name e))"
  proof
    assume eq: "fst (callTool (Some c) serverName tool_name args (Some d) env) =
                Returned (fst (callTool_catch env serverName tool_name e))"
    then have "timeout_response env tool_name d (uuidv4 env) =
               fst (callTool_catch env serverName tool_name e)"
      unfolding outcome timeout_outcome_def by (simp split: if_splits)
    then have "errorType (timeout_response env tool_name d (uuidv4 env)) =
               errorType (fst (callTool_catch env serverName tool_name e))"
      by simp
    then show False
      by (simp add: callTool_catch_errorType timeout_response_def)
  qed
  note defs = timeout_response_def cancel_reason_def send_effects_def cancellation_def
  show ?thesis
    using result [unfolded defs] once [unfolded defs] sent [unfolded defs] other
    by blast
qed

theorem remote_timed_out_rejection_is_local_timeout_witness:
  "fst (callTool
          (Some (example_client
                   (Rejects (McpError (Finite (- 32001)) ''MCP error -32001: Request timed out''))))
          ''files'' ''read_file'' [] (Some (Finite 30)) example_env) =
     Returned
       \<lparr>success = False, data = None,
        error = Some ''Tool execution timed out after 30 seconds'',
        statusCode = Some 408, errorType = Some ''timeout'', toolName = Some ''read_file'',
        timeout = Some (Finite 30),
        progressToken = Some ''3f2c9a1e-5b7d-4c8a-9e10-6d2b4f8a1c35'',
        requiresAuthentication = None\<rparr>
   \<and> filter is_transport_send
         (snd (callTool
                 (Some (example_client
                          (Rejects (McpError (Finite (- 32001))
                                      ''MCP error -32001: Request timed out''))))
                 ''files'' ''read_file'' [] (Some (Finite 30)) example_env)) =
       [TransportSend
          \<lparr>jsonrpc = ''2.0'', notification_method = ''notifications/cancelled'',
           params_requestId = ''3f2c9a1e-5b7d-4c8a-9e10-6d2b4f8a1c35'',
           params_reason = ''Execution timed out after 30 seconds''\<rparr>]"
proof -
  have pos: "is_positive (Finite 30)" by simp
  have sub: "sublist ''timed out''
               (message_or_unknown
                  (McpError (Finite (- 32001)) ''MCP error -32001: Request timed out''))"
    by (simp add: includes_str_sublist [symmetric])
  have thirty: "number_toString example_env (Finite 30) = ''30''"
    by (simp add: example_env_def)
  have tok: "uuidv4 example_env = ''3f2c9a1e-5b7d-4c8a-9e10-6d2b4f8a1c35''"
    by (simp add: example_env_def)
  have resolved: "resolveGlobalVars example_env (JObj []) = Resolves (JObj [])"
    by (simp add: example_env_def)
  have rejected: "client_callTool
                    (example_client
                       (Rejects (McpError (Finite (- 32001))
                                   ''MCP error -32001: Request timed out'')))
                    (sent_params ''read_file'' (JObj []) (uuidv4 example_env)) =
                  Rejects (McpError (Finite (- 32001)) ''MCP error -32001: Request timed out'')"
    by (simp add: example_client_def example_client_sending_def)
  have settles: "\<not> send_never_settles
                     (example_client
                        (Rejects (McpError (Finite (- 32001))
                                    ''MCP error -32001: Request timed out'')))
                     (uuidv4 example_env)
                     (''Execution timed out after '' @ number_toString example_env (Finite 30)
                      @ '' seconds'')"
    by (simp add: send_never_settles_def example_client_def example_client_sending_def)
  show ?thesis
    using remote_timed_out_rejection_is_local_timeout
            [OF pos resolved rejected sub, of "''files''"] settles
    by (simp add: thirty tok example_client_def example_client_sending_def)
qed

theorem remote_timed_out_rejection_pending_counterexample:
  "sublist ''timed out''
     (message_or_unknown (McpError (Finite (- 32001)) ''MCP error -32001: Request timed out''))
   \<and> fst (callTool
            (Some (example_client_sending NeverSettles
                     (Rejects (McpError (Finite (- 32001))
                                 ''MCP error -32001: Request timed out''))))
            ''files'' ''read_file'' [] (Some (Finite 30)) example_env) = Pending"
  by (simp add: callTool_outcome example_env_def example_client_sending_def Let_def
        timeout_outcome_def send_never_settles_def includes_str_sublist [symmetric])




text \<open>
  C3. The classification is not first-match-wins after the authentication check: for a
  rejection whose message contains \<open>404\<close>, has none of the authentication markers and
  carries the protocol code for invalid params, \<open>callTool\<close> returns status 400 with the
  404 notice as its message. The 404 branch assigns the status and the message without
  returning, and the protocol-code mapping then overwrites the status.
\<close>

theorem not_found_text_does_not_win:
  "not_found_text
     (message_or_unknown (McpError (Finite (- 32602)) ''MCP error -32602: 404 page not found''))
   \<and> \<not> auth_marker
         (message_or_unknown (McpError (Finite (- 32602)) ''MCP error -32602: 404 page not found''))
   \<and> fst (callTool
            (Some (example_client
                     (Rejects (McpError (Finite (- 32602))
                                 ''MCP error -32602: 404 page not found''))))
            ''files'' ''read_file'' [] None example_env) =
     Returned
       \<lparr>success = False, data = None,
        error = Some ''Failed to call tool: Tool endpoint not found (404). This may indicate OAuth authentication issues or the server may not be properly configured. (Code: -32602)'',
        statusCode = Some 400, errorType = None, toolName = None, timeout = None,
        progressToken = None, requiresAuthentication = None\<rparr>"
  by (simp add: callTool_outcome example_env_def example_client_def example_client_sending_def
        Let_def callTool_catch_def auth_marker_def not_found_text_def
        includes_str_sublist [symmetric])

text \<open>
  C4 (as amended). For a failing remote call that reaches the classifier (no timer was
  set, or the call settled before the timer with a message that does not contain
  \<open>timed out\<close>) and whose message contains \<open>401\<close>, \<open>Unauthorized\<close>,
  \<open>invalid_token\<close> or \<open>token_expired\<close>, \<open>callTool\<close> returns the failure with status
  401, \<open>requiresAuthentication = true\<close> and the fixed authentication message, whatever
  else the message contains and whatever protocol code the error carries.
\<close>

theorem authentication_failure_priority:
  assumes "resolveGlobalVars env (JObj args) = Resolves ra"
    and "client_callTool c (sent_params tool_name ra (uuidv4 env)) = Rejects e"
    and "reaches_classifier timeout_s env e"
    and "auth_marker (message_or_unknown e)"
  shows "fst (callTool (Some c) serverName tool_name args timeout_s env) =
           Returned
             \<lparr>success = False, data = None,
              error = Some ''OAuth authentication failed or tokens have expired. Please re-authenticate the server.'',
              statusCode = Some 401, errorType = None, toolName = None, timeout = None,
              progressToken = None, requiresAuthentication = Some True\<rparr>"
  unfolding callTool_outcome_classified [OF assms(1,2,3)] callTool_catch_auth [OF assms(4)]
    auth_failure_def ..

theorem authentication_failure_priority_witness:
  "fst (callTool
          (Some (example_client
                   (Rejects (McpError (Finite (- 32603)) ''MCP error -32603: HTTP 401 Not Found''))))
          ''files'' ''read_file'' [] (Some (Finite 30)) example_env) =
     Returned
       \<lparr>success = False, data = None,
        error = Some ''OAuth authentication failed or tokens have expired. Please re-authenticate the server.'',
        statusCode = Some 401, errorType = None, toolName = None, timeout = None,
        progressToken = None, requiresAuthentication = Some True\<rparr>"
  using authentication_failure_priority
          [of example_env "[]" "JObj []"
              "example_client
                 (Rejects (McpError (Finite (- 32603)) ''MCP error -32603: HTTP 401 Not Found''))"
              "''read_file''"
              "McpError (Finite (- 32603)) ''MCP error -32603: HTTP 401 Not Found''"
              "Some (Finite 30)" "''files''"]
  by (simp add: example_env_def example_client_def example_client_sending_def
        reaches_classifier_def auth_marker_def includes_str_sublist [symmetric])

theorem authentication_priority_counterexample:
  "auth_marker (message_or_unknown (Error ''401 Unauthorized: upstream request timed out''))
   \<and> fst (callTool
            (Some (example_client (Rejects (Error ''401 Unauthorized: upstream request timed out''))))
            ''files'' ''read_file'' [] (Some (Finite 30)) example_env) =
     Returned
       \<lparr>success = False, data = None,
        error = Some ''Tool execution timed out after 30 seconds'',
        statusCode = Some 408, errorType = Some ''timeout'', toolName = Some ''read_file'',
        timeout = Some (Finite 30),
        progressToken = Some ''3f2c9a1e-5b7d-4c8a-9e10-6d2b4f8a1c35'',
        requiresAuthentication = None\<rparr>"
  by (simp add: callTool_outcome example_env_def example_client_def example_client_sending_def
        Let_def timeout_outcome_def send_never_settles_def timeout_response_def auth_marker_def
        includes_str_sublist [symmetric])

text \<open>
  C8 (as amended). An invocation that gets as far as generating a token (handle present,
  arguments resolved) generates exactly one, and issues the remote call with that token
  in the envelope's metadata; an invocation that stops earlier generates none. In every
  invocation, each envelope sent, each cancellation requested, each notification handed
  to the transport and the \<open>progressToken\<close> of a success or timeout result carry that
  one token.
\<close>

theorem callTool_single_token:
  "filter is_generate_token (snd (callTool client serverName tool_name args timeout_s env)) =
     (case client of
        None \<Rightarrow> []
      | Some c \<Rightarrow>
          (case resolveGlobalVars env (JObj args) of
             Resolves ra \<Rightarrow> [GenerateToken (uuidv4 env)]
           | Rejects e \<Rightarrow> []
           | NeverSettles \<Rightarrow> []))
   \<and> (\<forall>c ra. client = Some c \<and> resolveGlobalVars env (JObj args) = Resolves ra \<longrightarrow>
          RemoteCall (sent_params tool_name ra (uuidv4 env))
            \<in> set (snd (callTool client serverName tool_name args timeout_s env)))
   \<and> (\<forall>p. RemoteCall p \<in> set (snd (callTool client serverName tool_name args timeout_s env)) \<longrightarrow>
          params_meta_progressToken p = uuidv4 env)
   \<and> (\<forall>requestId reason.
          CancelRequest requestId reason
            \<in> set (snd (callTool client serverName tool_name args timeout_s env)) \<longrightarrow>
          requestId = uuidv4 env)
   \<and> (\<forall>n. TransportSend n \<in> set (snd (callTool client serverName tool_name args timeout_s env)) \<longrightarrow>
          params_requestId n = uuidv4 env)
   \<and> (\<forall>r. fst (callTool client serverName tool_name args timeout_s env) = Returned r
          \<and> (success r \<or> errorType r = Some ''timeout'') \<longrightarrow>
          progressToken r = Some (uuidv4 env))"
proof -
  have carry: "carries_token (uuidv4 env) ev"
    if "ev \<in> set (snd (callTool client serverName tool_name args timeout_s env))" for ev
    using callTool_events_carry_token [of env client serverName tool_name args timeout_s] that
    by (simp add: list_all_iff)
  have envelope: "params_meta_progressToken p = uuidv4 env"
    if "RemoteCall p \<in> set (snd (callTool client serverName tool_name args timeout_s env))" for p
    using carry [OF that] by simp
  have cancel: "requestId = uuidv4 env"
    if "CancelRequest requestId reason
          \<in> set (snd (callTool client serverName tool_name args timeout_s env))"
    for requestId reason
    using carry [OF that] by simp
  have notification: "params_requestId n = uuidv4 env"
    if "TransportSend n \<in> set (snd (callTool client serverName tool_name args timeout_s env))" for n
    using carry [OF that] by simp
  show ?thesis
    using generated_tokens [of client serverName tool_name args timeout_s env]
      envelope cancel notification
      result_token [of client serverName tool_name args timeout_s env]
      remote_call_issued [of env args _ tool_name _ serverName timeout_s]
    by blast
qed

theorem callTool_single_token_witness:
  "filter is_generate_token
     (snd (callTool (Some (example_client NeverSettles)) ''files'' ''read_file'' []
             (Some (Finite 1)) example_env)) =
     [GenerateToken ''3f2c9a1e-5b7d-4c8a-9e10-6d2b4f8a1c35'']
   \<and> RemoteCall \<lparr>params_name = ''read_file'', params_arguments = [],
                  params_meta_progressToken = ''3f2c9a1e-5b7d-4c8a-9e10-6d2b4f8a1c35''\<rparr>
       \<in> set (snd (callTool (Some (example_client NeverSettles)) ''files'' ''read_file'' []
                       (Some (Finite 1)) example_env))"
  using callTool_single_token [of "Some (example_client NeverSettles)" "''files''"
          "''read_file''" "[]" "Some (Finite 1)" example_env]
  by (simp add: example_env_def sent_params_def normalizeToolArguments_def)

theorem token_generated_counterexample:
  "filter is_generate_token
     (snd (callTool None ''files'' ''read_file'' [] None example_env)) = []"
  by (simp add: callTool_def)



end
